theory Spec2Isabelle
  imports Complex_Main
begin

section \<open>Graph attention layers of \<^verbatim>\<open>src/nets/gat.py\<close>\<close>

text \<open>
  The development embeds the attention layer \<^verbatim>\<open>GATConv\<close>, the stacked models built from
  it and the factory \<^verbatim>\<open>create_gat\<close>. Floating-point numbers are idealised as reals, a
  tensor is its shape together with its row-major contents (the layout \<^verbatim>\<open>view\<close> relies
  on), an exception is a value of type \<open>error\<close>, and the mutable layer object is passed
  in and returned. Edge structures are edge lists (a \<^verbatim>\<open>2 \<times> E\<close> index tensor, here a
  list of (source, destination) pairs); the sparse-adjacency representation is not
  modelled.
\<close>

subsection \<open>Errors and tensors\<close>

datatype error =
    AssertionError string
  | RuntimeError
  | ValueError
  | IndexError
  | UnboundLocalError
  | AttributeError string

record tensor =
  shape :: "nat list"
  data :: "real list"

definition tdim :: "tensor \<Rightarrow> nat" where
  "tdim t = length (shape t)"

definition numel :: "tensor \<Rightarrow> nat" where
  "numel t = prod_list (shape t)"

text \<open>\<^verbatim>\<open>t.size(0)\<close>; every tensor it is applied to below has rank 2 or 3.\<close>

definition size0 :: "tensor \<Rightarrow> nat" where
  "size0 t = (case shape t of [] \<Rightarrow> 0 | n # _ \<Rightarrow> n)"

text \<open>Row-major contents of a table with rows \<open>is\<close> and \<open>w\<close> columns.\<close>

definition rows :: "nat list \<Rightarrow> nat \<Rightarrow> (nat \<Rightarrow> nat \<Rightarrow> real) \<Rightarrow> real list" where
  "rows is w f = concat (map (\<lambda>i. map (f i) [0..<w]) is)"

text \<open>
  Modelled from the spec: \<^verbatim>\<open>torch.nn.Linear(in, out, bias=False)\<close> applied to \<open>x\<close>
  (step 1, "apply linear projection to input features"). The weight has shape
  \<open>[out, in]\<close>; the last axis of \<open>x\<close> must have size \<open>in\<close>.
\<close>

definition Linear :: "tensor \<Rightarrow> tensor \<Rightarrow> error + tensor" where
  "Linear w x =
     (case shape w of
        [out, inn] \<Rightarrow>
          (case rev (shape x) of
             [] \<Rightarrow> Inl RuntimeError
           | k # rs \<Rightarrow>
               if k = inn
               then Inr \<lparr>shape = rev rs @ [out],
                         data = rows [0..<prod_list rs] out
                           (\<lambda>r oc. sum_list (map (\<lambda>j. data x ! (r * inn + j) * data w ! (oc * inn + j))
                                       [0..<inn]))\<rparr>
               else Inl RuntimeError)
      | _ \<Rightarrow> Inl RuntimeError)"

text \<open>
  Modelled from the spec: \<^verbatim>\<open>x.view(-1, H, C)\<close> (step 1, "reshape to (num_nodes, heads,
  out_channels)"). The contents are untouched; the free axis is inferred, which
  needs a non-zero \<open>H * C\<close> dividing the number of elements.
\<close>

definition view3 :: "tensor \<Rightarrow> nat \<Rightarrow> nat \<Rightarrow> error + tensor" where
  "view3 x H C =
     (if H * C = 0 then Inl RuntimeError
      else if numel x mod (H * C) = 0
      then Inr \<lparr>shape = [numel x div (H * C), H, C], data = data x\<rparr>
      else Inl RuntimeError)"

text \<open>Modelled from the spec: \<^verbatim>\<open>out.view(-1, H * C)\<close> (step 9, concatenation of heads).\<close>

definition view2 :: "tensor \<Rightarrow> nat \<Rightarrow> error + tensor" where
  "view2 x K =
     (if K = 0 then Inl RuntimeError
      else if numel x mod K = 0
      then Inr \<lparr>shape = [numel x div K, K], data = data x\<rparr>
      else Inl RuntimeError)"

text \<open>
  Modelled from the spec: \<^verbatim>\<open>out.mean(dim=1)\<close> on a rank-3 tensor (step 9, "average over
  the heads axis").
\<close>

definition mean1 :: "tensor \<Rightarrow> error + tensor" where
  "mean1 x =
     (case shape x of
        [n, h, c] \<Rightarrow>
          Inr \<lparr>shape = [n, c],
               data = rows [0..<n] c
                 (\<lambda>i k. sum_list (map (\<lambda>j. data x ! ((i * h + j) * c + k)) [0..<h]) / real h)\<rparr>
      | _ \<Rightarrow> Inl IndexError)"

text \<open>\<^verbatim>\<open>(x * att).sum(dim=-1)\<close> for \<open>x\<close> of shape \<open>[N, H, C]\<close> and \<open>att\<close> of shape \<open>[1, H, C]\<close>.\<close>

definition att_sum :: "tensor \<Rightarrow> tensor \<Rightarrow> error + tensor" where
  "att_sum x att =
     (case shape x of
        [n, h, c] \<Rightarrow>
          if shape att = [1, h, c]
          then Inr \<lparr>shape = [n, h],
                    data = rows [0..<n] h
                      (\<lambda>i j. sum_list (map (\<lambda>k. data x ! ((i * h + j) * c + k) * data att ! (j * c + k))
                                 [0..<c]))\<rparr>
          else Inl RuntimeError
      | _ \<Rightarrow> Inl RuntimeError)"

text \<open>\<^verbatim>\<open>out += bias\<close> for a bias vector as long as the last axis of \<open>out\<close>.\<close>

definition add_bias :: "tensor \<Rightarrow> tensor \<Rightarrow> error + tensor" where
  "add_bias out b =
     (case rev (shape out) of
        [] \<Rightarrow> Inl RuntimeError
      | k # rs \<Rightarrow>
          if shape b = [k]
          then Inr (out\<lparr>data := map (\<lambda>p. data out ! p + data b ! (p mod k)) [0..<numel out]\<rparr>)
          else Inl RuntimeError)"

text \<open>Element-wise sum of two tensors of one shape (\<^verbatim>\<open>alpha_j + alpha_i\<close>).\<close>

definition tadd :: "tensor \<Rightarrow> tensor \<Rightarrow> tensor" where
  "tadd a b = a\<lparr>data := map (\<lambda>p. data a ! p + data b ! p) [0..<numel a]\<rparr>"

text \<open>
  Modelled from the spec: \<^verbatim>\<open>F.leaky_relu(alpha, negative_slope)\<close> (step 4,
  "leaky-rectification with configurable negative slope").
\<close>

definition leaky_relu :: "tensor \<Rightarrow> real \<Rightarrow> tensor" where
  "leaky_relu a slope = a\<lparr>data := map (\<lambda>v. if 0 \<le> v then v else slope * v) (data a)\<rparr>"

text \<open>
  Modelled from the spec: \<^verbatim>\<open>torch_geometric.utils.softmax(src, index, ptr, num_nodes)\<close>
  with \<^verbatim>\<open>ptr = None\<close> (step 5): for each destination node its incoming edge values are,
  per head, exponentiated after subtracting the group maximum and divided by the sum
  of exponentials over the same group. \<open>src\<close> has one row per edge, \<open>index\<close> gives the
  destination of each edge, and every destination must be below \<open>num_nodes\<close>, the size
  of the per-node buffers.
\<close>

definition incoming :: "nat list \<Rightarrow> nat \<Rightarrow> nat list" where
  "incoming index i = filter (\<lambda>k. index ! k = i) [0..<length index]"

definition group_max :: "tensor \<Rightarrow> nat list \<Rightarrow> nat \<Rightarrow> nat \<Rightarrow> real" where
  "group_max src index i h =
     Max (set (map (\<lambda>k. data src ! (k * prod_list (tl (shape src)) + h)) (incoming index i)))"

definition group_exp :: "tensor \<Rightarrow> nat list \<Rightarrow> nat \<Rightarrow> nat \<Rightarrow> real" where
  "group_exp src index k h =
     exp (data src ! (k * prod_list (tl (shape src)) + h) - group_max src index (index ! k) h)"

definition softmax :: "tensor \<Rightarrow> nat list \<Rightarrow> unit option \<Rightarrow> nat \<Rightarrow> error + tensor" where
  "softmax src index ptr num_nodes =
     (if list_all (\<lambda>i. i < num_nodes) index
      then Inr (src\<lparr>data := rows [0..<length index] (prod_list (tl (shape src)))
                  (\<lambda>k h. group_exp src index k h /
                          sum_list (map (\<lambda>k'. group_exp src index k' h) (incoming index (index ! k))))\<rparr>)
      else Inl RuntimeError)"

text \<open>
  Modelled from the spec: \<^verbatim>\<open>F.dropout(t, p, training)\<close> (step 6): during training each
  entry is zeroed independently with probability \<open>p\<close> and the kept ones are rescaled,
  during inference the tensor is returned as it is. The random draw is the argument
  \<open>keep\<close> (entry \<open>k\<close> is kept when \<open>keep k\<close>). A \<open>p\<close> that is not a probability is
  refused with a \<^verbatim>\<open>ValueError\<close>, in training and in inference alike.
\<close>

definition dropout_fn :: "(nat \<Rightarrow> bool) \<Rightarrow> tensor \<Rightarrow> real \<Rightarrow> bool \<Rightarrow> error + tensor" where
  "dropout_fn keep t p train =
     (if p < 0 \<or> 1 < p then Inl ValueError
      else if train
      then Inr (t\<lparr>data := map (\<lambda>k. if keep k \<and> p < 1 then data t ! k / (1 - p) else 0)
                             [0..<length (data t)]\<rparr>)
      else Inr t)"

subsection \<open>The attention layer \<^verbatim>\<open>GATConv\<close>\<close>

text \<open>
  The layer object: its configuration, its parameters (the weight of a bias-free
  \<^verbatim>\<open>Linear\<close> is a tensor of shape \<open>[heads * out_channels, in]\<close>), the transient cache
  \<^verbatim>\<open>_alpha\<close> and the \<^verbatim>\<open>training\<close> flag of \<^verbatim>\<open>nn.Module\<close>. With an integer
  \<open>in_channels\<close> the two projections are one module (\<^verbatim>\<open>temp_weight\<close>).
\<close>

record GATConv =
  in_channels :: "nat + nat \<times> nat"
  out_channels :: nat
  heads :: nat
  concat_heads :: bool
  negative_slope :: real
  dropout :: real
  lin_l :: tensor
  lin_r :: tensor
  att_l :: tensor
  att_r :: tensor
  bias :: "tensor option"
  alpha_cache :: "tensor option"
  training :: bool

text \<open>
  \<^verbatim>\<open>GATConv.__init__\<close> followed by \<^verbatim>\<open>reset_parameters\<close>. The random initialiser
  \<^verbatim>\<open>glorot\<close> of the library is the parameter \<open>glorot\<close>, which gives the values drawn for
  a named parameter of a given shape; the bias starts at zero. A fresh module is in
  training mode.
\<close>

definition GATConv_init ::
  "(string \<Rightarrow> nat list \<Rightarrow> real list) \<Rightarrow> nat + nat \<times> nat \<Rightarrow> nat \<Rightarrow> nat \<Rightarrow> bool \<Rightarrow> real \<Rightarrow> real \<Rightarrow> bool
     \<Rightarrow> GATConv" where
  "GATConv_init glorot in_ch out_ch hds cat slope p with_bias =
     \<lparr>in_channels = in_ch, out_channels = out_ch, heads = hds, concat_heads = cat,
      negative_slope = slope, dropout = p,
      lin_l = (case in_ch of
                 Inl n \<Rightarrow> \<lparr>shape = [hds * out_ch, n], data = glorot ''temp_weight.weight'' [hds * out_ch, n]\<rparr>
               | Inr (a, b) \<Rightarrow> \<lparr>shape = [hds * out_ch, a], data = glorot ''lin_l.weight'' [hds * out_ch, a]\<rparr>),
      lin_r = (case in_ch of
                 Inl n \<Rightarrow> \<lparr>shape = [hds * out_ch, n], data = glorot ''temp_weight.weight'' [hds * out_ch, n]\<rparr>
               | Inr (a, b) \<Rightarrow> \<lparr>shape = [hds * out_ch, b], data = glorot ''lin_r.weight'' [hds * out_ch, b]\<rparr>),
      att_l = \<lparr>shape = [1, hds, out_ch], data = glorot ''att_l'' [1, hds, out_ch]\<rparr>,
      att_r = \<lparr>shape = [1, hds, out_ch], data = glorot ''att_r'' [1, hds, out_ch]\<rparr>,
      bias = (if with_bias \<and> cat then Some \<lparr>shape = [hds * out_ch], data = replicate (hds * out_ch) 0\<rparr>
              else if with_bias \<and> \<not> cat then Some \<lparr>shape = [out_ch], data = replicate out_ch 0\<rparr>
              else None),
      alpha_cache = None,
      training = True\<rparr>"

text \<open>
  Arguments of \<^verbatim>\<open>forward\<close>: the features are one tensor or a pair whose target part
  may be absent (\<^verbatim>\<open>OptPairTensor\<close>); \<^verbatim>\<open>size\<close> is an optional pair of node counts;
  \<^verbatim>\<open>return_attention_weights\<close> is an arbitrary object, of which only its being a
  \<^verbatim>\<open>bool\<close> is inspected. The result is \<^verbatim>\<open>(out, edge_index)\<close> or
  \<^verbatim>\<open>(out, (edge_index, alpha))\<close>.
\<close>

datatype features = XTensor tensor | XPair tensor "tensor option"

type_synonym edge_index = "(nat \<times> nat) list"

datatype pyobj = PyNone | PyBool bool | PyInt int

datatype attn_out = EdgesOnly (edges_of: edge_index) | EdgesAlpha (edges_of: edge_index) tensor

definition static_msg :: string where
  "static_msg = ''Static graphs not supported in `GATConv`.''"

fun bind_err :: "error + 'a \<Rightarrow> ('a \<Rightarrow> error + 'b) \<Rightarrow> error + 'b" where
  "bind_err (Inl e) f = Inl e"
| "bind_err (Inr v) f = f v"

text \<open>
  \<^verbatim>\<open>x_j * alpha.unsqueeze(-1)\<close>: every feature of an edge and head is scaled by the
  coefficient of that edge and head.
\<close>

definition mul_unsqueeze :: "tensor \<Rightarrow> tensor \<Rightarrow> tensor" where
  "mul_unsqueeze x a =
     x\<lparr>data := map (\<lambda>p. data x ! p * data a ! (p div last (shape x))) [0..<numel x]\<rparr>"

text \<open>
  \<^verbatim>\<open>GATConv.message\<close>. The normalised coefficients are stored in \<^verbatim>\<open>_alpha\<close> before
  dropout is applied: a failure of the normalisation leaves the layer as it was, a
  failure of the dropout leaves it with the cache filled.
\<close>

definition message ::
  "GATConv \<Rightarrow> (nat \<Rightarrow> bool) \<Rightarrow> tensor \<Rightarrow> tensor \<Rightarrow> tensor option \<Rightarrow> nat list \<Rightarrow> unit option \<Rightarrow> nat
     \<Rightarrow> (error + tensor) \<times> GATConv" where
  "message self keep x_j alpha_j alpha_i index ptr size_i =
     (let alpha = (case alpha_i of None \<Rightarrow> alpha_j | Some a_i \<Rightarrow> tadd alpha_j a_i);
          alpha = leaky_relu alpha (negative_slope self)
      in case softmax alpha index ptr size_i of
           Inl e \<Rightarrow> (Inl e, self)
         | Inr alpha \<Rightarrow>
             (let self = self\<lparr>alpha_cache := Some alpha\<rparr>
              in case dropout_fn keep alpha (dropout self) (training self) of
                   Inl e \<Rightarrow> (Inl e, self)
                 | Inr alpha \<Rightarrow> (Inr (mul_unsqueeze x_j alpha), self)))"

text \<open>
  The value bound to the parameter \<^verbatim>\<open>size\<close> of \<^verbatim>\<open>forward\<close>, when it is not \<^verbatim>\<open>None\<close>, is a
  sequence of numbers: the pair of node counts the parameter is meant for, or whatever
  else a caller passes in that position, such as a tensor with one weight per edge.
  The code reads its entries 0 and 1; a sequence without them raises.
\<close>

type_synonym size_arg = "real list"

definition size_items :: "size_arg \<Rightarrow> error + real \<times> real" where
  "size_items s = (if length s < 2 then Inl IndexError else Inr (s ! 0, s ! 1))"

text \<open>
  Modelled from the spec: \<^verbatim>\<open>MessagePassing.propagate\<close> of the graph library for an
  edge list, with sum aggregation along the node axis (steps 4 to 8). It settles the
  node counts (the two entries read from a given \<^verbatim>\<open>size\<close> must agree with the feature
  tensors), gathers for every edge the source features \<^verbatim>\<open>x_j\<close>, the source term
  \<^verbatim>\<open>alpha_j\<close> and, when target terms exist, the target term \<^verbatim>\<open>alpha_i\<close>, calls \<^verbatim>\<open>message\<close>
  with the destinations as the grouping index, and sums the messages per destination
  node. The number of destination nodes \<^verbatim>\<open>size_i\<close> sizes the per-node buffers and has to
  be a natural number.
\<close>

definition check_input :: "size_arg option \<Rightarrow> error + real option \<times> real option" where
  "check_input sizes =
     (case sizes of
        None \<Rightarrow> Inr (None, None)
      | Some s \<Rightarrow> map_sum id (\<lambda>(a, b). (Some a, Some b)) (size_items s))"

definition set_size :: "real option \<Rightarrow> tensor \<Rightarrow> error + real" where
  "set_size the_size src =
     (case the_size of
        None \<Rightarrow> Inr (real (size0 src))
      | Some v \<Rightarrow> if v = real (size0 src) then Inr v else Inl ValueError)"

definition buffer_size :: "real \<Rightarrow> error + nat" where
  "buffer_size v = (if 0 \<le> v \<and> v = of_int \<lfloor>v\<rfloor> then Inr (nat \<lfloor>v\<rfloor>) else Inl RuntimeError)"

definition index_select :: "tensor \<Rightarrow> nat list \<Rightarrow> error + tensor" where
  "index_select t idx =
     (case shape t of
        [] \<Rightarrow> Inl IndexError
      | n # s \<Rightarrow>
          if list_all (\<lambda>i. i < n) idx
          then Inr \<lparr>shape = length idx # s,
                    data = rows idx (prod_list s) (\<lambda>i c. data t ! (i * prod_list s + c))\<rparr>
          else Inl IndexError)"

definition scatter_add :: "tensor \<Rightarrow> nat list \<Rightarrow> nat \<Rightarrow> tensor" where
  "scatter_add inputs index dim_size =
     \<lparr>shape = dim_size # tl (shape inputs),
      data = rows [0..<dim_size] (prod_list (tl (shape inputs)))
               (\<lambda>i c. sum_list (map (\<lambda>k. data inputs ! (k * prod_list (tl (shape inputs)) + c))
                          (incoming index i)))\<rparr>"

definition collect ::
  "edge_index \<Rightarrow> tensor \<times> tensor option \<Rightarrow> tensor \<times> tensor option \<Rightarrow> size_arg option
     \<Rightarrow> error + (tensor \<times> tensor \<times> tensor option \<times> nat)" where
  "collect edge_index x alpha sizes =
     bind_err (check_input sizes) (\<lambda>the_size.
     bind_err (case snd x of
                 None \<Rightarrow> Inr (snd the_size)
               | Some x_r \<Rightarrow> map_sum id Some (set_size (snd the_size) x_r)) (\<lambda>s1.
     bind_err (set_size (fst the_size) (fst x)) (\<lambda>s0.
     bind_err (index_select (fst x) (map fst edge_index)) (\<lambda>x_j.
     bind_err (index_select (fst alpha) (map fst edge_index)) (\<lambda>alpha_j.
     bind_err (case snd alpha of
                 None \<Rightarrow> Inr None
               | Some alpha_r \<Rightarrow> map_sum id Some (index_select alpha_r (map snd edge_index))) (\<lambda>alpha_i.
     bind_err (buffer_size (case s1 of None \<Rightarrow> s0 | Some v \<Rightarrow> if v = 0 then s0 else v)) (\<lambda>size_i.
     Inr (x_j, alpha_j, alpha_i, size_i))))))))"

definition propagate ::
  "GATConv \<Rightarrow> (nat \<Rightarrow> bool) \<Rightarrow> edge_index \<Rightarrow> tensor \<times> tensor option \<Rightarrow> tensor \<times> tensor option
     \<Rightarrow> size_arg option \<Rightarrow> (error + tensor) \<times> GATConv" where
  "propagate self keep edge_index x alpha sizes =
     (case collect edge_index x alpha sizes of
        Inl e \<Rightarrow> (Inl e, self)
      | Inr (x_j, alpha_j, alpha_i, size_i) \<Rightarrow>
          (case message self keep x_j alpha_j alpha_i (map snd edge_index) None size_i of
             (Inl e, self) \<Rightarrow> (Inl e, self)
           | (Inr msgs, self) \<Rightarrow> (Inr (scatter_add msgs (map snd edge_index) size_i), self)))"

text \<open>
  Modelled from the spec: \<^verbatim>\<open>remove_self_loops\<close> and \<^verbatim>\<open>add_self_loops\<close> of the graph
  library (step 3): "strip any existing self-loops from the edge set, then append
  exactly one self-loop per node index in range \<open>[0, num_nodes)\<close>". The count is the
  number the caller computed, so the node indices below it are those below its ceiling.
\<close>

definition remove_self_loops :: "edge_index \<Rightarrow> edge_index" where
  "remove_self_loops edge_index = filter (\<lambda>e. fst e \<noteq> snd e) edge_index"

definition add_self_loops :: "edge_index \<Rightarrow> real \<Rightarrow> edge_index" where
  "add_self_loops edge_index num_nodes = edge_index @ map (\<lambda>i. (i, i)) [0..<nat \<lceil>num_nodes\<rceil>]"

text \<open>Lines 125 to 143 of \<^verbatim>\<open>forward\<close>: the rank check, the projections and the raw terms.\<close>

definition forward_project ::
  "GATConv \<Rightarrow> features \<Rightarrow> error + (tensor \<times> tensor option \<times> tensor \<times> tensor option)" where
  "forward_project self x =
     (case x of
        XTensor t \<Rightarrow>
          if tdim t \<noteq> 2 then Inl (AssertionError static_msg)
          else bind_err (Linear (lin_l self) t) (\<lambda>x.
               bind_err (view3 x (heads self) (out_channels self)) (\<lambda>x_l.
               bind_err (att_sum x_l (att_l self)) (\<lambda>alpha_l.
               bind_err (att_sum x_l (att_r self)) (\<lambda>alpha_r.
               Inr (x_l, Some x_l, alpha_l, Some alpha_r)))))
      | XPair x0 x1 \<Rightarrow>
          if tdim x0 \<noteq> 2 then Inl (AssertionError static_msg)
          else bind_err (Linear (lin_l self) x0) (\<lambda>x.
               bind_err (view3 x (heads self) (out_channels self)) (\<lambda>x_l.
               bind_err (att_sum x_l (att_l self)) (\<lambda>alpha_l.
               (case x1 of
                  None \<Rightarrow> Inr (x_l, None, alpha_l, None)
                | Some x_r \<Rightarrow>
                    bind_err (Linear (lin_r self) x_r) (\<lambda>x.
                    bind_err (view3 x (heads self) (out_channels self)) (\<lambda>x_r.
                    bind_err (att_sum x_r (att_r self)) (\<lambda>alpha_r.
                    Inr (x_l, Some x_r, alpha_l, Some alpha_r)))))))))"

text \<open>Lines 147 to 151: the node count used by the self-loop adjustment.\<close>

definition num_nodes :: "tensor \<Rightarrow> tensor option \<Rightarrow> size_arg option \<Rightarrow> error + real" where
  "num_nodes x_l x_r sizes =
     (let n = size0 x_l;
          n = (case x_r of None \<Rightarrow> n | Some r \<Rightarrow> min n (size0 r))
      in case sizes of
           None \<Rightarrow> Inr (real n)
         | Some s \<Rightarrow> map_sum id (\<lambda>(a, b). min a b) (size_items s))"

text \<open>Lines 145 to 155 for an edge list.\<close>

definition forward_self_loops ::
  "bool \<Rightarrow> edge_index \<Rightarrow> tensor \<Rightarrow> tensor option \<Rightarrow> size_arg option \<Rightarrow> error + edge_index" where
  "forward_self_loops is_add_self_loops edge_index x_l x_r sizes =
     (if is_add_self_loops
      then bind_err (num_nodes x_l x_r sizes) (\<lambda>num_nodes.
           Inr (add_self_loops (remove_self_loops edge_index) num_nodes))
      else Inr edge_index)"

text \<open>Lines 163 to 169: the heads are concatenated or averaged, then the bias is added.\<close>

definition forward_combine :: "GATConv \<Rightarrow> tensor \<Rightarrow> error + tensor" where
  "forward_combine self out =
     bind_err (if concat_heads self then view2 out (heads self * out_channels self) else mean1 out)
       (\<lambda>out. case bias self of None \<Rightarrow> Inr out | Some b \<Rightarrow> add_bias out b)"

text \<open>
  \<^verbatim>\<open>GATConv.forward\<close>. The result pairs what the call returns or raises with the layer
  object as the call leaves it. Line 119 only reads the number of edges, which an edge
  list always has, and the two assertions of lines 142 and 143 cannot fail.
\<close>

definition forward ::
  "GATConv \<Rightarrow> (nat \<Rightarrow> bool) \<Rightarrow> features \<Rightarrow> edge_index \<Rightarrow> size_arg option \<Rightarrow> pyobj \<Rightarrow> bool
     \<Rightarrow> (error + tensor \<times> attn_out) \<times> GATConv" where
  "forward self keep x edge_index sizes return_attention_weights is_add_self_loops =
     (case forward_project self x of
        Inl e \<Rightarrow> (Inl e, self)
      | Inr (x_l, x_r, alpha_l, alpha_r) \<Rightarrow>
          (case forward_self_loops is_add_self_loops edge_index x_l x_r sizes of
             Inl e \<Rightarrow> (Inl e, self)
           | Inr edge_index \<Rightarrow>
               (case propagate self keep edge_index (x_l, x_r) (alpha_l, alpha_r) sizes of
                  (Inl e, self) \<Rightarrow> (Inl e, self)
                | (Inr out, self) \<Rightarrow>
                    (let alpha = alpha_cache self;
                         self = self\<lparr>alpha_cache := None\<rparr>
                     in case forward_combine self out of
                          Inl e \<Rightarrow> (Inl e, self)
                        | Inr out \<Rightarrow>
                            (case return_attention_weights of
                               PyBool b \<Rightarrow>
                                 (case alpha of
                                    None \<Rightarrow> (Inl (AssertionError []), self)
                                  | Some a \<Rightarrow> (Inr (out, EdgesAlpha edge_index a), self))
                             | _ \<Rightarrow> (Inr (out, EdgesOnly edge_index), self))))))"

subsection \<open>Stacked models and the factory\<close>

text \<open>
  \<^verbatim>\<open>list(conv.parameters())\<close>: the parameters of a layer, named as \<^verbatim>\<open>named_parameters\<close>
  names them below \<open>prefix\<close>: the layer's own parameters first, then those of its
  projection modules, a shared projection once.
\<close>

definition parameters :: "string \<Rightarrow> GATConv \<Rightarrow> string list" where
  "parameters prefix conv =
     [prefix @ ''.att_l'', prefix @ ''.att_r'']
     @ (case bias conv of None \<Rightarrow> [] | Some b \<Rightarrow> [prefix @ ''.bias''])
     @ (case in_channels conv of
          Inl n \<Rightarrow> [prefix @ ''.temp_weight.weight'']
        | Inr ab \<Rightarrow> [prefix @ ''.lin_l.weight'', prefix @ ''.lin_r.weight''])"

fun str_nat :: "nat \<Rightarrow> string" where
  "str_nat n =
     (if n < 10 then [char_of (48 + n)] else str_nat (n div 10) @ [char_of (48 + n mod 10)])"

declare str_nat.simps [simp del]

text \<open>\<^verbatim>\<open>list(self.convx.parameters())\<close> for the \<^verbatim>\<open>ModuleList\<close> \<open>convs\<close>, counted from \<open>i\<close>.\<close>

fun list_parameters :: "string \<Rightarrow> nat \<Rightarrow> GATConv list \<Rightarrow> string list" where
  "list_parameters prefix i [] = []"
| "list_parameters prefix i (c # cs) =
     parameters (prefix @ ''.'' @ str_nat i) c @ list_parameters prefix (Suc i) cs"

text \<open>
  The five model classes, each with the attributes its \<^verbatim>\<open>__init__\<close> sets:
  \<^item> \<open>StandGAT1 conv1 is_add_self_loops reg_params non_reg_params\<close>
  \<^item> \<open>StandGAT2 conv1 conv2 dropout_p is_add_self_loops reg_params non_reg_params\<close>
  \<^item> \<open>StandGATX conv1 conv2 convx dropout_p is_add_self_loops reg_params non_reg_params training\<close>
  \<^item> \<open>StandGATEncoder conv1 conv2 dropout is_add_self_loops\<close>
  \<^item> \<open>StandGATClssifier conv1 conv2 fakereal dropout_p is_add_self_loops\<close>,
    where \<open>fakereal\<close> is the weight and the bias of a \<^verbatim>\<open>Linear\<close>.
\<close>

datatype model =
    StandGAT1 GATConv bool "string list" "string list"
  | StandGAT2 GATConv GATConv real bool "string list" "string list"
  | StandGATX GATConv GATConv "GATConv list" real bool "string list" "string list" bool
  | StandGATEncoder GATConv GATConv real bool
  | StandGATClssifier GATConv GATConv "tensor \<times> tensor" real bool

definition sub :: "(string \<Rightarrow> nat list \<Rightarrow> real list) \<Rightarrow> string \<Rightarrow> string \<Rightarrow> nat list \<Rightarrow> real list" where
  "sub glorot prefix name = glorot (prefix @ ''.'' @ name)"

definition StandGAT1_init ::
  "(string \<Rightarrow> nat list \<Rightarrow> real list) \<Rightarrow> nat \<Rightarrow> nat \<Rightarrow> nat \<Rightarrow> real \<Rightarrow> int \<Rightarrow> bool \<Rightarrow> model" where
  "StandGAT1_init glorot nfeat nhid nclass p nlayer is_add_self_loops =
     (let conv1 = GATConv_init (sub glorot ''conv1'') (Inl nfeat) nclass 1 True 0.2 0 True
      in StandGAT1 conv1 is_add_self_loops [] (parameters ''conv1'' conv1))"

definition StandGAT2_init ::
  "(string \<Rightarrow> nat list \<Rightarrow> real list) \<Rightarrow> nat \<Rightarrow> nat \<Rightarrow> nat \<Rightarrow> real \<Rightarrow> int \<Rightarrow> model" where
  "StandGAT2_init glorot nfeat nhid nclass p nlayer =
     (let num_head = 4;
          head_dim = nhid div num_head;
          conv1 = GATConv_init (sub glorot ''conv1'') (Inl nfeat) head_dim num_head True 0.2 0 True;
          conv2 = GATConv_init (sub glorot ''conv2'') (Inl nhid) nclass 1 False 0.2 0 True
      in StandGAT2 conv1 conv2 p True (parameters ''conv1'' conv1) (parameters ''conv2'' conv2))"

definition StandGATX_init ::
  "(string \<Rightarrow> nat list \<Rightarrow> real list) \<Rightarrow> nat \<Rightarrow> nat \<Rightarrow> nat \<Rightarrow> real \<Rightarrow> int \<Rightarrow> model" where
  "StandGATX_init glorot nfeat nhid nclass p nlayer =
     (let num_head = 4;
          head_dim = nhid div num_head;
          conv1 = GATConv_init (sub glorot ''conv1'') (Inl nfeat) head_dim num_head True 0.2 0 True;
          conv2 = GATConv_init (sub glorot ''conv2'') (Inl nhid) nclass 1 True 0.2 0 True;
          convx = map (\<lambda>i. GATConv_init (sub glorot (''convx.'' @ str_nat i)) (Inl nhid) head_dim num_head
                              True 0.2 0 True)
                    [0..<nat (nlayer - 2)]
      in StandGATX conv1 conv2 convx p True
           (parameters ''conv1'' conv1 @ list_parameters ''convx'' 0 convx)
           (parameters ''conv2'' conv2) True)"

definition StandGATEncoder_init ::
  "(string \<Rightarrow> nat list \<Rightarrow> real list) \<Rightarrow> nat \<Rightarrow> nat \<Rightarrow> nat \<Rightarrow> real \<Rightarrow> bool \<Rightarrow> model" where
  "StandGATEncoder_init glorot nfeat nhid nembed p is_add_self_loops =
     (let num_head = 8;
          head_dim = nhid div num_head;
          head_dim_2 = nembed div num_head;
          conv1 = GATConv_init (sub glorot ''conv1'') (Inl nfeat) head_dim_2 num_head True 0.2 0 True;
          conv2 = GATConv_init (sub glorot ''conv2'') (Inl nhid) head_dim_2 num_head True 0.2 0 True
      in StandGATEncoder conv1 conv2 p is_add_self_loops)"

definition StandGATClssifier_init ::
  "(string \<Rightarrow> nat list \<Rightarrow> real list) \<Rightarrow> nat \<Rightarrow> nat \<Rightarrow> nat \<Rightarrow> real \<Rightarrow> int \<Rightarrow> model" where
  "StandGATClssifier_init glorot nembed nhid nclass p nlayer =
     (let num_head = 8;
          head_dim = nhid div num_head;
          conv1 = GATConv_init (sub glorot ''conv1'') (Inl nembed) head_dim num_head True 0.2 0 True;
          conv2 = GATConv_init (sub glorot ''conv2'') (Inl nhid) nclass 1 False 0.2 0 True;
          fakereal = (\<lparr>shape = [2, nhid], data = glorot ''fakereal.weight'' [2, nhid]\<rparr>,
                      \<lparr>shape = [2], data = glorot ''fakereal.bias'' [2]\<rparr>)
      in StandGATClssifier conv1 conv2 fakereal p True)"

text \<open>Reading the attributes \<^verbatim>\<open>reg_params\<close> and \<^verbatim>\<open>non_reg_params\<close> of a model object.\<close>

fun reg_params :: "model \<Rightarrow> error + string list" where
  "reg_params (StandGAT1 c1 sl reg non_reg) = Inr reg"
| "reg_params (StandGAT2 c1 c2 p sl reg non_reg) = Inr reg"
| "reg_params (StandGATX c1 c2 cx p sl reg non_reg tr) = Inr reg"
| "reg_params (StandGATEncoder c1 c2 p sl) = Inl (AttributeError ''reg_params'')"
| "reg_params (StandGATClssifier c1 c2 fr p sl) = Inl (AttributeError ''reg_params'')"

fun non_reg_params :: "model \<Rightarrow> error + string list" where
  "non_reg_params (StandGAT1 c1 sl reg non_reg) = Inr non_reg"
| "non_reg_params (StandGAT2 c1 c2 p sl reg non_reg) = Inr non_reg"
| "non_reg_params (StandGATX c1 c2 cx p sl reg non_reg tr) = Inr non_reg"
| "non_reg_params (StandGATEncoder c1 c2 p sl) = Inl (AttributeError ''non_reg_params'')"
| "non_reg_params (StandGATClssifier c1 c2 fr p sl) = Inl (AttributeError ''non_reg_params'')"

text \<open>\<^verbatim>\<open>list(model.parameters())\<close>: the parameters of the child modules in the order of their registration.\<close>

fun model_parameters :: "model \<Rightarrow> string list" where
  "model_parameters (StandGAT1 c1 sl reg non_reg) = parameters ''conv1'' c1"
| "model_parameters (StandGAT2 c1 c2 p sl reg non_reg) = parameters ''conv1'' c1 @ parameters ''conv2'' c2"
| "model_parameters (StandGATX c1 c2 cx p sl reg non_reg tr) =
     parameters ''conv1'' c1 @ parameters ''conv2'' c2 @ list_parameters ''convx'' 0 cx"
| "model_parameters (StandGATEncoder c1 c2 p sl) = parameters ''conv1'' c1 @ parameters ''conv2'' c2"
| "model_parameters (StandGATClssifier c1 c2 fr p sl) =
     parameters ''conv1'' c1 @ parameters ''conv2'' c2 @ [''fakereal.weight'', ''fakereal.bias'']"

text \<open>\<^verbatim>\<open>type(model).__name__\<close>.\<close>

fun class_name :: "model \<Rightarrow> string" where
  "class_name (StandGAT1 c1 sl reg non_reg) = ''StandGAT1''"
| "class_name (StandGAT2 c1 c2 p sl reg non_reg) = ''StandGAT2''"
| "class_name (StandGATX c1 c2 cx p sl reg non_reg tr) = ''StandGATX''"
| "class_name (StandGATEncoder c1 c2 p sl) = ''StandGATEncoder''"
| "class_name (StandGATClssifier c1 c2 fr p sl) = ''StandGATClssifier''"

text \<open>
  \<^verbatim>\<open>create_gat\<close>. For a depth that no branch handles the local \<^verbatim>\<open>model\<close> is never
  bound, and \<^verbatim>\<open>return model\<close> raises.
\<close>

definition create_gat ::
  "(string \<Rightarrow> nat list \<Rightarrow> real list) \<Rightarrow> nat \<Rightarrow> nat \<Rightarrow> nat \<Rightarrow> real \<Rightarrow> int \<Rightarrow> nat \<Rightarrow> error + model" where
  "create_gat glorot nfeat nhid nclass p nlayer nembed =
     (if nlayer = 1 then Inr (StandGAT1_init glorot nfeat nhid nclass p nlayer True)
      else if nlayer = 2 then Inr (StandGAT2_init glorot nfeat nhid nclass p nlayer)
      else if nlayer = 3 then Inr (StandGATEncoder_init glorot nfeat nhid nembed p True)
      else if nlayer = 4 then Inr (StandGATClssifier_init glorot nhid nembed nclass p 2)
      else Inl UnboundLocalError)"

text \<open>
  \<^verbatim>\<open>StandGATX.forward\<close>. \<^verbatim>\<open>F.relu\<close> and the feature dropout are modelled from the spec
  (section 4.2, "interleaved activation/dropout"). The random draws of one call are
  the family \<open>keep\<close>, numbered in the order in which the call makes them. A layer called
  without \<^verbatim>\<open>return_attention_weights\<close> hands back the edge list; a pair of edges and
  coefficients in its place has no \<^verbatim>\<open>shape\<close> for the next layer to read. The argument
  \<^verbatim>\<open>edge_weight\<close> is any sequence of numbers or \<^verbatim>\<open>None\<close>, and goes to the final layer in
  the third position. The method belongs to \<^verbatim>\<open>StandGATX\<close> objects; the last equation
  only makes the function total.
\<close>

definition relu :: "tensor \<Rightarrow> tensor" where
  "relu t = t\<lparr>data := map (max 0) (data t)\<rparr>"

fun convx_loop ::
  "GATConv list \<Rightarrow> real \<Rightarrow> bool \<Rightarrow> bool \<Rightarrow> (nat \<Rightarrow> nat \<Rightarrow> bool) \<Rightarrow> nat \<Rightarrow> tensor \<Rightarrow> edge_index
     \<Rightarrow> (error + tensor \<times> edge_index) \<times> GATConv list" where
  "convx_loop [] p tr sl keep n x edge_index = (Inr (x, edge_index), [])"
| "convx_loop (iter_layer # rest) p tr sl keep n x edge_index =
     (case dropout_fn (keep n) x p tr of
        Inl e \<Rightarrow> (Inl e, iter_layer # rest)
      | Inr x \<Rightarrow>
          (case forward iter_layer (keep (n + 1)) (XTensor x) edge_index None PyNone sl of
             (Inl e, iter_layer) \<Rightarrow> (Inl e, iter_layer # rest)
           | (Inr (x, EdgesAlpha edge_index a), iter_layer) \<Rightarrow>
               (Inl (AttributeError ''shape''), iter_layer # rest)
           | (Inr (x, EdgesOnly edge_index), iter_layer) \<Rightarrow>
               (let x = relu x
                in case convx_loop rest p tr sl keep (n + 2) x edge_index of
                     (res, rest) \<Rightarrow> (res, iter_layer # rest))))"

fun StandGATX_forward ::
  "model \<Rightarrow> (nat \<Rightarrow> nat \<Rightarrow> bool) \<Rightarrow> features \<Rightarrow> edge_index \<Rightarrow> size_arg option
     \<Rightarrow> (error + tensor) \<times> model" where
  "StandGATX_forward (StandGATX conv1 conv2 convx p sl reg non_reg tr) keep x adj edge_weight =
     (case forward conv1 (keep 0) x adj None PyNone sl of
        (Inl e, conv1) \<Rightarrow> (Inl e, StandGATX conv1 conv2 convx p sl reg non_reg tr)
      | (Inr (x, EdgesAlpha edge_index a), conv1) \<Rightarrow>
          (Inl (AttributeError ''shape''), StandGATX conv1 conv2 convx p sl reg non_reg tr)
      | (Inr (x, EdgesOnly edge_index), conv1) \<Rightarrow>
          (let x = relu x
           in case convx_loop convx p tr sl keep 1 x edge_index of
                (Inl e, convx) \<Rightarrow> (Inl e, StandGATX conv1 conv2 convx p sl reg non_reg tr)
              | (Inr (x, edge_index), convx) \<Rightarrow>
                  (case dropout_fn (keep (1 + 2 * length convx)) x p tr of
                     Inl e \<Rightarrow> (Inl e, StandGATX conv1 conv2 convx p sl reg non_reg tr)
                   | Inr x \<Rightarrow>
                       (case forward conv2 (keep (2 + 2 * length convx)) (XTensor x) edge_index
                               edge_weight PyNone sl of
                          (Inl e, conv2) \<Rightarrow> (Inl e, StandGATX conv1 conv2 convx p sl reg non_reg tr)
                        | (Inr (x, edge_index), conv2) \<Rightarrow>
                            (Inr x, StandGATX conv1 conv2 convx p sl reg non_reg tr)))))"
| "StandGATX_forward m keep x adj edge_weight = (Inl (AttributeError ''conv1''), m)"

subsection \<open>Example inputs\<close>

text \<open>
  A layer with one input feature, one head and one output channel whose parameters
  are all zero, and a graph of two nodes with the edges \<open>0 \<rightarrow> 1\<close> and \<open>1 \<rightarrow> 1\<close>.
\<close>

abbreviation zero_init :: "string \<Rightarrow> nat list \<Rightarrow> real list" where
  "zero_init \<equiv> (\<lambda>name s. replicate (prod_list s) 0)"

abbreviation example_layer :: GATConv where
  "example_layer \<equiv> GATConv_init zero_init (Inl 1) 1 1 True 0.2 0 True"

abbreviation example_x :: tensor where
  "example_x \<equiv> \<lparr>shape = [2, 1], data = [1, 2]\<rparr>"

abbreviation example_edges :: edge_index where
  "example_edges \<equiv> [(0, 1), (1, 1)]"

section \<open>Properties\<close>

subsection \<open>Tables, groups and shapes\<close>

lemma nth_rows:
  assumes "k < length is" "h < w"
  shows "rows is w f ! (k * w + h) = f (is ! k) h"
  using assms
proof (induction "is" arbitrary: k)
  case Nil
  then show ?case by simp
next
  case (Cons i "is")
  show ?case
  proof (cases k)
    case 0
    with Cons.prems show ?thesis by (simp add: rows_def nth_append)
  next
    case (Suc k')
    with Cons.prems have "k' < length is" by simp
    from Cons.IH[OF this \<open>h < w\<close>] Suc show ?thesis
      by (simp add: rows_def nth_append add.assoc)
  qed
qed

lemma group_mem: "k' \<in> set (incoming index i) \<longleftrightarrow> k' < length index \<and> index ! k' = i"
  by (auto simp: incoming_def)

lemma group_self: "k < length index \<Longrightarrow> k \<in> set (incoming index (index ! k))"
  by (simp add: group_mem)

lemma sum_list_exp_pos:
  assumes "xs \<noteq> []"
  shows "0 < sum_list (map (\<lambda>k. exp (g k :: real)) xs)"
  using assms
proof (induction xs)
  case Nil
  then show ?case by simp
next
  case (Cons a xs)
  have "0 \<le> sum_list (map (\<lambda>k. exp (g k)) xs)"
    by (rule sum_list_nonneg) auto
  moreover have "0 < exp (g a)" by simp
  ultimately have "0 < exp (g a) + sum_list (map (\<lambda>k. exp (g k)) xs)"
    by (rule add_pos_nonneg[rotated])
  then show ?case by simp
qed

lemma sum_list_div: "sum_list (map (\<lambda>k. f k / (c::real)) xs) = sum_list (map f xs) / c"
  by (induction xs) (simp_all add: add_divide_distrib)

lemma softmax_group_sum:
  assumes sm: "softmax src index ptr n = Inr a"
      and k: "k < length index"
      and h: "h < prod_list (tl (shape src))"
  shows "sum_list (map (\<lambda>k'. data a ! (k' * prod_list (tl (shape src)) + h))
           (incoming index (index ! k))) = 1"
proof -
  let ?w = "prod_list (tl (shape src))"
  let ?g = "incoming index (index ! k)"
  let ?S = "sum_list (map (\<lambda>k'. group_exp src index k' h) ?g)"
  from sm have a: "data a = rows [0..<length index] ?w
      (\<lambda>k h. group_exp src index k h /
              sum_list (map (\<lambda>k'. group_exp src index k' h) (incoming index (index ! k))))"
    by (auto simp: softmax_def split: if_splits)
  have entry: "data a ! (k' * ?w + h) = group_exp src index k' h / ?S" if "k' \<in> set ?g" for k'
  proof -
    from that have lt: "k' < length index" and eq: "index ! k' = index ! k"
      by (simp_all add: group_mem)
    from lt h show ?thesis
      by (simp add: a nth_rows eq)
  qed
  have "?g \<noteq> []" using group_self[OF k] by auto
  then have pos: "0 < ?S"
    unfolding group_exp_def by (rule sum_list_exp_pos)
  have "sum_list (map (\<lambda>k'. data a ! (k' * ?w + h)) ?g)
      = sum_list (map (\<lambda>k'. group_exp src index k' h / ?S) ?g)"
    by (rule arg_cong[where f = sum_list], rule map_cong[OF refl]) (rule entry)
  also have "\<dots> = ?S / ?S" by (rule sum_list_div)
  also have "\<dots> = 1" using pos by simp
  finally show ?thesis .
qed

lemma message_eq:
  "message self keep x_j alpha_j alpha_i index ptr n =
     (case softmax (leaky_relu (case alpha_i of None \<Rightarrow> alpha_j | Some a_i \<Rightarrow> tadd alpha_j a_i)
                      (negative_slope self)) index ptr n of
        Inl e \<Rightarrow> (Inl e, self)
      | Inr a \<Rightarrow>
          (case dropout_fn keep a (dropout self) (training self) of
             Inl e \<Rightarrow> (Inl e, self\<lparr>alpha_cache := Some a\<rparr>)
           | Inr ad \<Rightarrow> (Inr (mul_unsqueeze x_j ad), self\<lparr>alpha_cache := Some a\<rparr>)))"
  by (simp add: message_def Let_def split: sum.splits)

lemma propagate_eq:
  "propagate self keep es x alpha sizes =
     (case collect es x alpha sizes of
        Inl e \<Rightarrow> (Inl e, self)
      | Inr (x_j, alpha_j, alpha_i, size_i) \<Rightarrow>
          (case softmax (leaky_relu (case alpha_i of None \<Rightarrow> alpha_j | Some a_i \<Rightarrow> tadd alpha_j a_i)
                           (negative_slope self)) (map snd es) None size_i of
             Inl e \<Rightarrow> (Inl e, self)
           | Inr a \<Rightarrow>
               (case dropout_fn keep a (dropout self) (training self) of
                  Inl e \<Rightarrow> (Inl e, self\<lparr>alpha_cache := Some a\<rparr>)
                | Inr ad \<Rightarrow>
                    (Inr (scatter_add (mul_unsqueeze x_j ad) (map snd es) size_i),
                     self\<lparr>alpha_cache := Some a\<rparr>))))"
  by (simp add: propagate_def message_eq split: sum.splits prod.splits)

lemma forward_eq:
  "forward self keep x e sizes raw sl =
     (case forward_project self x of
        Inl err \<Rightarrow> (Inl err, self)
      | Inr (x_l, x_r, alpha_l, alpha_r) \<Rightarrow>
          (case forward_self_loops sl e x_l x_r sizes of
             Inl err \<Rightarrow> (Inl err, self)
           | Inr es \<Rightarrow>
               (case collect es (x_l, x_r) (alpha_l, alpha_r) sizes of
                  Inl err \<Rightarrow> (Inl err, self)
                | Inr (x_j, alpha_j, alpha_i, size_i) \<Rightarrow>
                    (case softmax (leaky_relu (case alpha_i of None \<Rightarrow> alpha_j
                                               | Some a_i \<Rightarrow> tadd alpha_j a_i)
                                     (negative_slope self)) (map snd es) None size_i of
                       Inl err \<Rightarrow> (Inl err, self)
                     | Inr a \<Rightarrow>
                         (case dropout_fn keep a (dropout self) (training self) of
                            Inl err \<Rightarrow> (Inl err, self\<lparr>alpha_cache := Some a\<rparr>)
                          | Inr ad \<Rightarrow>
                              (case forward_combine self
                                      (scatter_add (mul_unsqueeze x_j ad) (map snd es) size_i) of
                                 Inl err \<Rightarrow> (Inl err, self\<lparr>alpha_cache := None\<rparr>)
                               | Inr out \<Rightarrow>
                                   (Inr (out, case raw of PyBool b \<Rightarrow> EdgesAlpha es a
                                              | _ \<Rightarrow> EdgesOnly es),
                                    self\<lparr>alpha_cache := None\<rparr>)))))))"
  by (simp add: forward_def propagate_eq forward_combine_def Let_def
      split: sum.splits prod.splits pyobj.splits)

lemma bind_err_Inr:
  "bind_err m f = Inr y \<longleftrightarrow> (\<exists>v. m = Inr v \<and> f v = Inr y)"
  by (cases m) simp_all

lemma view3_Inr:
  "view3 x H C = Inr y \<Longrightarrow> shape y = [numel x div (H * C), H, C] \<and> H * C \<noteq> 0"
  by (auto simp: view3_def split: if_splits)

lemma att_sum_Inr:
  "att_sum x att = Inr a \<Longrightarrow> shape x = [n, h, c] \<Longrightarrow> shape a = [n, h]"
  by (auto simp: att_sum_def split: list.splits if_splits)

lemma forward_project_shapes:
  assumes "forward_project self x = Inr (x_l, x_r, alpha_l, alpha_r)"
  shows "\<exists>n. shape x_l = [n, heads self, out_channels self] \<and> shape alpha_l = [n, heads self]"
    and "heads self * out_channels self \<noteq> 0"
  using assms
  by (auto simp: forward_project_def bind_err_Inr split: features.splits if_splits option.splits
           dest!: view3_Inr dest: att_sum_Inr)

lemma index_select_Inr:
  "index_select t idx = Inr y \<Longrightarrow> shape y = length idx # tl (shape t)"
  by (auto simp: index_select_def split: list.splits if_splits)

lemma collect_shapes:
  assumes "collect es (x_l, x_r) (alpha_l, alpha_r) sizes = Inr (x_j, alpha_j, alpha_i, n)"
  shows "shape x_j = length es # tl (shape x_l)"
    and "shape alpha_j = length es # tl (shape alpha_l)"
  using assms
  by (auto simp: collect_def bind_err_Inr dest!: index_select_Inr)

lemma shape_leaky_relu [simp]: "shape (leaky_relu a s) = shape a"
  by (simp add: leaky_relu_def)

lemma shape_tadd [simp]: "shape (tadd a b) = shape a"
  by (simp add: tadd_def)

lemma dropout_fn_Inr: "dropout_fn keep t p tr = Inr y \<Longrightarrow> shape y = shape t"
  by (auto simp: dropout_fn_def split: if_splits)

lemma shape_mul_unsqueeze [simp]: "shape (mul_unsqueeze x a) = shape x"
  by (simp add: mul_unsqueeze_def)

lemma shape_scatter_add [simp]: "shape (scatter_add m idx n) = n # tl (shape m)"
  by (simp add: scatter_add_def)

lemma forward_Inr_cases:
  assumes "fst (forward self keep x e sizes raw sl) = Inr (out, r)"
  obtains x_l x_r alpha_l alpha_r es x_j alpha_j alpha_i size_i a ad where
    "forward_project self x = Inr (x_l, x_r, alpha_l, alpha_r)"
    "forward_self_loops sl e x_l x_r sizes = Inr es"
    "collect es (x_l, x_r) (alpha_l, alpha_r) sizes = Inr (x_j, alpha_j, alpha_i, size_i)"
    "softmax (leaky_relu (case alpha_i of None \<Rightarrow> alpha_j | Some a_i \<Rightarrow> tadd alpha_j a_i)
                (negative_slope self)) (map snd es) None size_i = Inr a"
    "dropout_fn keep a (dropout self) (training self) = Inr ad"
    "forward_combine self (scatter_add (mul_unsqueeze x_j ad) (map snd es) size_i) = Inr out"
    "r = (case raw of PyBool b \<Rightarrow> EdgesAlpha es a | _ \<Rightarrow> EdgesOnly es)"
  using assms
  by (auto simp: forward_eq split: sum.splits prod.splits)

lemmas eval_defs = GATConv_init_def forward_def forward_project_def Linear_def view3_def view2_def
  att_sum_def rows_def numel_def tdim_def size0_def forward_self_loops_def num_nodes_def size_items_def
  remove_self_loops_def add_self_loops_def propagate_def collect_def check_input_def set_size_def
  buffer_size_def index_select_def message_def tadd_def leaky_relu_def softmax_def incoming_def
  group_exp_def group_max_def dropout_fn_def mul_unsqueeze_def scatter_add_def add_bias_def mean1_def
  forward_combine_def Let_def eval_nat_numeral

lemma example_forward:
  "forward example_layer (\<lambda>k. True) (XTensor example_x) example_edges None (PyBool True) True
     = ((Inr (\<lparr>shape = [2, 1], data = [0, 0]\<rparr>,
              EdgesAlpha [(0, 1), (0, 0), (1, 1)] \<lparr>shape = [3, 1], data = [1 / 2, 1, 1 / 2]\<rparr>)),
        example_layer)"
  by (simp add: eval_defs)

lemma example_project:
  "forward_project example_layer (XTensor example_x)
     = Inr (\<lparr>shape = [2, 1, 1], data = [0, 0]\<rparr>, Some \<lparr>shape = [2, 1, 1], data = [0, 0]\<rparr>,
            \<lparr>shape = [2, 1], data = [0, 0]\<rparr>, Some \<lparr>shape = [2, 1], data = [0, 0]\<rparr>)"
  by (simp add: eval_defs)

subsection \<open>Normalised attention\<close>

text \<open>
  Claim C1. When \<^verbatim>\<open>forward\<close> returns the attention coefficients, then for every edge
  \<open>k\<close> of the self-loop-adjusted edge set and every head \<open>h\<close> the coefficients of head
  \<open>h\<close> over all edges that enter the destination of \<open>k\<close> sum to one. Every node that is
  a destination of some edge is covered; the numbers are reals.
\<close>

theorem attention_sums_to_one:
  assumes fwd: "fst (forward self keep x edge_index sizes (PyBool b) is_add_self_loops)
                  = Inr (out, EdgesAlpha es alpha)"
      and k: "k < length es"
      and h: "h < heads self"
  shows "sum_list (map (\<lambda>k'. data alpha ! (k' * heads self + h))
           (incoming (map snd es) (snd (es ! k)))) = 1"
proof -
  from fwd obtain x_l x_r alpha_l alpha_r es' x_j alpha_j alpha_i size_i a where
    proj: "forward_project self x = Inr (x_l, x_r, alpha_l, alpha_r)" and
    coll: "collect es' (x_l, x_r) (alpha_l, alpha_r) sizes = Inr (x_j, alpha_j, alpha_i, size_i)" and
    sm: "softmax (leaky_relu (case alpha_i of None \<Rightarrow> alpha_j | Some a_i \<Rightarrow> tadd alpha_j a_i)
                    (negative_slope self)) (map snd es') None size_i = Inr a" and
    r: "EdgesAlpha es alpha = (case PyBool b of PyBool b \<Rightarrow> EdgesAlpha es' a | _ \<Rightarrow> EdgesOnly es')"
    by (rule forward_Inr_cases)
  from r have es: "es' = es" and alpha: "alpha = a" by simp_all
  let ?src = "leaky_relu (case alpha_i of None \<Rightarrow> alpha_j | Some a_i \<Rightarrow> tadd alpha_j a_i)
                (negative_slope self)"
  from forward_project_shapes(1)[OF proj] obtain n where "shape alpha_l = [n, heads self]"
    by blast
  with collect_shapes(2)[OF coll] have "shape alpha_j = [length es, heads self]"
    by (simp add: es)
  then have w': "prod_list (tl (shape (case alpha_i of None \<Rightarrow> alpha_j | Some a_i \<Rightarrow> tadd alpha_j a_i)))
      = heads self"
    by (cases alpha_i) simp_all
  then have w: "prod_list (tl (shape ?src)) = heads self"
    by simp
  have "sum_list (map (\<lambda>k'. data a ! (k' * prod_list (tl (shape ?src)) + h))
          (incoming (map snd es) (map snd es ! k))) = 1"
    using sm k h unfolding es w[symmetric]
    by (intro softmax_group_sum[where ptr = None and n = size_i]) simp_all
  with k show ?thesis by (simp add: w' alpha)
qed

theorem attention_sums_to_one_witness:
  "fst (forward example_layer (\<lambda>k. True) (XTensor example_x) example_edges None (PyBool True) True)
     = Inr (\<lparr>shape = [2, 1], data = [0, 0]\<rparr>,
            EdgesAlpha [(0, 1), (0, 0), (1, 1)] \<lparr>shape = [3, 1], data = [1 / 2, 1, 1 / 2]\<rparr>)
   \<and> (0 :: nat) < length [(0 :: nat, 1 :: nat), (0, 0), (1, 1)]
   \<and> 0 < heads example_layer
   \<and> sum_list (map (\<lambda>k'. data \<lparr>shape = [3, 1], data = [1 / 2, 1, 1 / 2]\<rparr> ! (k' * heads example_layer + 0))
        (incoming (map snd [(0 :: nat, 1 :: nat), (0, 0), (1, 1)])
           (snd ([(0 :: nat, 1 :: nat), (0, 0), (1, 1)] ! 0)))) = 1"
proof -
  have f: "fst (forward example_layer (\<lambda>k. True) (XTensor example_x) example_edges None (PyBool True) True)
     = Inr (\<lparr>shape = [2, 1], data = [0, 0]\<rparr>,
            EdgesAlpha [(0, 1), (0, 0), (1, 1)] \<lparr>shape = [3, 1], data = [1 / 2, 1, 1 / 2]\<rparr>)"
    by (simp only: example_forward fst_conv)
  have k: "(0 :: nat) < length [(0 :: nat, 1 :: nat), (0, 0), (1, 1)]" by simp
  have h: "0 < heads example_layer" by (simp add: GATConv_init_def)
  from attention_sums_to_one[OF f k h] f k h show ?thesis by blast
qed

subsection \<open>Self-loop adjustment\<close>

lemma less_nat_ceiling: "i < nat \<lceil>n :: real\<rceil> \<longleftrightarrow> real i < n"
  by (simp add: zless_nat_eq_int_zless less_ceiling_iff)

lemma count_self_loops_upt:
  "count_list (map (\<lambda>i. (i, i)) [0..<n]) (i, i) = (if i < n then 1 else 0)"
  by (induction n) auto

lemma count_remove_self_loops: "count_list (remove_self_loops es) (i, i) = 0"
  by (rule count_notin) (simp add: remove_self_loops_def)

lemma count_forward_self_loops:
  assumes "forward_self_loops True es x_l x_r sizes = Inr es'"
  shows "\<exists>n. num_nodes x_l x_r sizes = Inr n \<and>
             count_list es' (i, i) = (if real i < n then 1 else 0)"
proof -
  from assms obtain n where n: "num_nodes x_l x_r sizes = Inr n"
    and es': "es' = add_self_loops (remove_self_loops es) n"
    by (auto simp: forward_self_loops_def bind_err_Inr)
  have "count_list es' (i, i) = (if real i < n then 1 else 0)"
    unfolding es' add_self_loops_def
    by (simp add: count_remove_self_loops count_self_loops_upt less_nat_ceiling del: upt_Suc)
  with n show ?thesis by blast
qed

lemma edges_of_forward:
  assumes "forward_project self x = Inr (x_l, x_r, alpha_l, alpha_r)"
      and "fst (forward self keep x e sizes raw sl) = Inr (out, r)"
  shows "forward_self_loops sl e x_l x_r sizes = Inr (edges_of r)"
  using assms by (auto simp: forward_eq split: sum.splits prod.splits pyobj.splits)

lemma num_nodes_Inr:
  "num_nodes x_l x_r sizes = Inr n \<Longrightarrow>
   n = (case sizes of
          Some s \<Rightarrow> min (s ! 0) (s ! 1)
        | None \<Rightarrow> (case x_r of Some t \<Rightarrow> real (min (size0 x_l) (size0 t))
                   | None \<Rightarrow> real (size0 x_l)))"
  by (auto simp: num_nodes_def size_items_def Let_def split: option.splits if_splits)

text \<open>
  Claim C2. With self-loop adjustment enabled, the edge list that \<^verbatim>\<open>forward\<close> hands to
  the attention computation (and returns) holds the self-loop \<open>(i, i)\<close> exactly once for
  every \<open>i\<close> below \<open>num_nodes\<close> and not at all for other \<open>i\<close>, whatever self-loops the input
  had; \<open>num_nodes\<close> is the minimum of the entries 0 and 1 of an explicit size, and
  otherwise the minimum of the source-side and target-side node counts (the source-side
  count when there are no target features).
\<close>

theorem self_loops_exactly_once:
  assumes "forward_project self x = Inr (x_l, x_r, alpha_l, alpha_r)"
      and "fst (forward self keep x edge_index sizes raw True) = Inr (out, r)"
  shows "num_nodes x_l x_r sizes
           = Inr (case sizes of
                    Some s \<Rightarrow> min (s ! 0) (s ! 1)
                  | None \<Rightarrow> (case x_r of Some t \<Rightarrow> real (min (size0 x_l) (size0 t))
                             | None \<Rightarrow> real (size0 x_l)))
       \<and> count_list (edges_of r) (i, i)
           = (if real i < (case sizes of
                             Some s \<Rightarrow> min (s ! 0) (s ! 1)
                           | None \<Rightarrow> (case x_r of Some t \<Rightarrow> real (min (size0 x_l) (size0 t))
                                      | None \<Rightarrow> real (size0 x_l)))
              then 1 else 0)"
proof -
  from count_forward_self_loops[OF edges_of_forward[OF assms], of i] obtain n where
    n: "num_nodes x_l x_r sizes = Inr n" and
    c: "count_list (edges_of r) (i, i) = (if real i < n then 1 else 0)"
    by blast
  from num_nodes_Inr[OF n] n c show ?thesis by simp
qed

theorem self_loops_exactly_once_witness:
  "num_nodes \<lparr>shape = [2, 1, 1], data = [0, 0]\<rparr> (Some \<lparr>shape = [2, 1, 1], data = [0, 0]\<rparr>) None = Inr 2
   \<and> count_list (edges_of (EdgesAlpha [(0, 1), (0, 0), (1, 1)] \<lparr>shape = [3, 1], data = [1 / 2, 1, 1 / 2]\<rparr>))
       (1, 1) = 1
   \<and> count_list (edges_of (EdgesAlpha [(0, 1), (0, 0), (1, 1)] \<lparr>shape = [3, 1], data = [1 / 2, 1, 1 / 2]\<rparr>))
       (2, 2) = 0"
proof -
  have f: "fst (forward example_layer (\<lambda>k. True) (XTensor example_x) example_edges None (PyBool True) True)
     = Inr (\<lparr>shape = [2, 1], data = [0, 0]\<rparr>,
            EdgesAlpha [(0, 1), (0, 0), (1, 1)] \<lparr>shape = [3, 1], data = [1 / 2, 1, 1 / 2]\<rparr>)"
    by (simp only: example_forward fst_conv)
  from self_loops_exactly_once[OF example_project f, of 1]
       self_loops_exactly_once[OF example_project f, of 2]
  show ?thesis
    by (simp add: size0_def)
qed

subsection \<open>Output dimension\<close>

lemma view2_Inr: "view2 x K = Inr y \<Longrightarrow> shape y = [numel x div K, K]"
  by (auto simp: view2_def split: if_splits)

lemma mean1_Inr: "mean1 x = Inr y \<Longrightarrow> shape x = [n, h, c] \<Longrightarrow> shape y = [n, c]"
  by (auto simp: mean1_def split: list.splits)

lemma add_bias_Inr: "add_bias out b = Inr y \<Longrightarrow> shape y = shape out"
  by (auto simp: add_bias_def split: list.splits if_splits)

lemma forward_combine_shape:
  assumes "forward_combine self t = Inr out" and "shape t = [n, heads self, out_channels self]"
  shows "\<exists>m. shape out = [m, if concat_heads self then heads self * out_channels self
                            else out_channels self]"
proof -
  from assms(1) obtain v where
    v: "(if concat_heads self then view2 t (heads self * out_channels self) else mean1 t) = Inr v"
    and b: "(case bias self of None \<Rightarrow> Inr v | Some b \<Rightarrow> add_bias v b) = Inr out"
    by (auto simp: forward_combine_def bind_err_Inr)
  from b have "shape out = shape v"
    by (auto split: option.splits dest: add_bias_Inr)
  moreover from v assms(2)
  have "\<exists>m. shape v = [m, if concat_heads self then heads self * out_channels self
                          else out_channels self]"
    by (auto split: if_splits dest: view2_Inr mean1_Inr)
  ultimately show ?thesis by simp
qed

text \<open>
  Claim C3. Whenever \<^verbatim>\<open>forward\<close> returns, its output is a matrix whose last dimension is
  \<open>heads * out_channels\<close> if the heads are concatenated and \<open>out_channels\<close> if they are
  averaged.
\<close>

theorem output_last_dimension:
  assumes "fst (forward self keep x edge_index sizes raw is_add_self_loops) = Inr (out, r)"
  shows "tdim out = 2 \<and>
         last (shape out) = (if concat_heads self then heads self * out_channels self
                             else out_channels self)"
proof -
  from assms obtain x_l x_r alpha_l alpha_r es x_j alpha_j alpha_i size_i a ad where
    proj: "forward_project self x = Inr (x_l, x_r, alpha_l, alpha_r)" and
    coll: "collect es (x_l, x_r) (alpha_l, alpha_r) sizes = Inr (x_j, alpha_j, alpha_i, size_i)" and
    fin: "forward_combine self (scatter_add (mul_unsqueeze x_j ad) (map snd es) size_i) = Inr out"
    by (rule forward_Inr_cases)
  from forward_project_shapes(1)[OF proj] collect_shapes(1)[OF coll]
  have "tl (shape x_j) = [heads self, out_channels self]" by auto
  then have "shape (scatter_add (mul_unsqueeze x_j ad) (map snd es) size_i)
             = [size_i, heads self, out_channels self]"
    by simp
  from forward_combine_shape[OF fin this] show ?thesis
    by (auto simp: tdim_def)
qed

theorem output_last_dimension_witness:
  "tdim \<lparr>shape = [2, 1], data = [0, 0]\<rparr> = 2 \<and>
   last (shape \<lparr>shape = [2, 1], data = [0 :: real, 0]\<rparr>)
     = (if concat_heads example_layer then heads example_layer * out_channels example_layer
        else out_channels example_layer)"
proof -
  have f: "fst (forward example_layer (\<lambda>k. True) (XTensor example_x) example_edges None (PyBool True) True)
     = Inr (\<lparr>shape = [2, 1], data = [0, 0]\<rparr>,
            EdgesAlpha [(0, 1), (0, 0), (1, 1)] \<lparr>shape = [3, 1], data = [1 / 2, 1, 1 / 2]\<rparr>)"
    by (simp only: example_forward fst_conv)
  from output_last_dimension[OF f] show ?thesis .
qed

subsection \<open>The attention cache\<close>

lemma forward_project_cache [simp]:
  "forward_project (self\<lparr>alpha_cache := c\<rparr>) x = forward_project self x"
proof (cases x)
  case (XTensor t)
  then show ?thesis by (simp add: forward_project_def)
next
  case (XPair x0 x1)
  then show ?thesis by (cases x1) (simp_all add: forward_project_def)
qed

lemma forward_combine_cache [simp]:
  "forward_combine (self\<lparr>alpha_cache := c\<rparr>) t = forward_combine self t"
  by (simp add: forward_combine_def)

lemma forward_cache_irrelevant:
  "fst (forward (self\<lparr>alpha_cache := c\<rparr>) keep x e sizes raw sl) = fst (forward self keep x e sizes raw sl)"
  by (simp add: forward_eq split: sum.splits prod.splits)

lemma dropout_fn_valid:
  "0 \<le> p \<Longrightarrow> p \<le> 1 \<Longrightarrow> \<exists>y. dropout_fn keep t p tr = Inr y"
  by (simp add: dropout_fn_def)

lemma forward_state:
  assumes "0 \<le> dropout self" "dropout self \<le> 1"
  shows "snd (forward self keep x e sizes raw sl) = self \<or>
         snd (forward self keep x e sizes raw sl) = self\<lparr>alpha_cache := None\<rparr>"
proof -
  have "dropout_fn keep a (dropout self) (training self) \<noteq> Inl err" for a err
    using dropout_fn_valid[OF assms, of keep a "training self"] by auto
  then show ?thesis
    by (simp add: forward_eq split: sum.splits prod.splits)
qed

lemma forward_Inr_state:
  "forward self keep x e sizes raw sl = (Inr res, self') \<Longrightarrow> self' = self\<lparr>alpha_cache := None\<rparr>"
  by (auto simp: forward_eq split: sum.splits prod.splits)

lemma example_message:
  "message example_layer (\<lambda>k. True) \<lparr>shape = [3, 1, 1], data = [0, 0, 0]\<rparr>
     \<lparr>shape = [3, 1], data = [0, 0, 0]\<rparr> (Some \<lparr>shape = [3, 1], data = [0, 0, 0]\<rparr>) [1, 0, 1] None 2
   = (Inr \<lparr>shape = [3, 1, 1], data = [0, 0, 0]\<rparr>,
      example_layer\<lparr>alpha_cache := Some \<lparr>shape = [3, 1], data = [1 / 2, 1, 1 / 2]\<rparr>\<rparr>)"
  by (simp add: eval_defs)

lemma example_bad_dropout:
  "forward (GATConv_init zero_init (Inl 1) 1 1 True 0.2 2 True) (\<lambda>k. True) (XTensor example_x)
       example_edges None PyNone True
     = (Inl ValueError,
        (GATConv_init zero_init (Inl 1) 1 1 True 0.2 2 True)
          \<lparr>alpha_cache := Some \<lparr>shape = [3, 1], data = [1 / 2, 1, 1 / 2]\<rparr>\<rparr>)"
  by (simp add: eval_defs)

text \<open>
  Claim C5, as amended. A fresh layer has an empty cache \<^verbatim>\<open>_alpha\<close>; \<^verbatim>\<open>message\<close> fills it
  whenever it produces messages; whenever \<^verbatim>\<open>forward\<close> returns, the cache is empty
  again; if the dropout probability of the layer lies between 0 and 1, a call that
  starts with an empty cache ends with an empty cache on every path, raising ones
  included, so that the cache is empty between any two calls; and what \<^verbatim>\<open>forward\<close>
  returns or raises does not depend on what the cache held before the call.
\<close>

theorem alpha_cache_cleared:
  "alpha_cache (GATConv_init glorot in_ch out_ch hds cat slope p with_bias) = None
   \<and> (\<forall>msgs self'. message self keep x_j alpha_j alpha_i index ptr size_i = (Inr msgs, self')
         \<longrightarrow> alpha_cache self' \<noteq> None)
   \<and> (\<forall>res self'. forward self keep x edge_index sizes raw sl = (Inr res, self')
         \<longrightarrow> alpha_cache self' = None)
   \<and> (alpha_cache self = None \<and> 0 \<le> dropout self \<and> dropout self \<le> 1
         \<longrightarrow> alpha_cache (snd (forward self keep x edge_index sizes raw sl)) = None)
   \<and> fst (forward (self\<lparr>alpha_cache := c\<rparr>) keep x edge_index sizes raw sl)
       = fst (forward self keep x edge_index sizes raw sl)"
proof (intro conjI allI impI)
  show "alpha_cache (GATConv_init glorot in_ch out_ch hds cat slope p with_bias) = None"
    by (simp add: GATConv_init_def)
next
  fix msgs self'
  assume "message self keep x_j alpha_j alpha_i index ptr size_i = (Inr msgs, self')"
  then show "alpha_cache self' \<noteq> None"
    by (auto simp: message_eq split: sum.splits)
next
  fix res self'
  assume "forward self keep x edge_index sizes raw sl = (Inr res, self')"
  from forward_Inr_state[OF this] show "alpha_cache self' = None" by simp
next
  assume a: "alpha_cache self = None \<and> 0 \<le> dropout self \<and> dropout self \<le> 1"
  then have "0 \<le> dropout self" "dropout self \<le> 1" by simp_all
  from forward_state[OF this, of keep x edge_index sizes raw sl] a
  show "alpha_cache (snd (forward self keep x edge_index sizes raw sl)) = None"
    by auto
next
  show "fst (forward (self\<lparr>alpha_cache := c\<rparr>) keep x edge_index sizes raw sl)
       = fst (forward self keep x edge_index sizes raw sl)"
    by (rule forward_cache_irrelevant)
qed

theorem alpha_cache_cleared_witness:
  "alpha_cache example_layer = None
   \<and> alpha_cache (example_layer\<lparr>alpha_cache := Some \<lparr>shape = [3, 1], data = [1 / 2, 1, 1 / 2]\<rparr>\<rparr>) \<noteq> None
   \<and> 0 \<le> dropout example_layer \<and> dropout example_layer \<le> 1
   \<and> alpha_cache (snd (forward example_layer (\<lambda>k. True) (XTensor example_x) example_edges None
                          (PyBool True) True)) = None
   \<and> fst (forward (example_layer\<lparr>alpha_cache := Some example_x\<rparr>) (\<lambda>k. True) (XTensor example_x)
            example_edges None (PyBool True) True)
       = fst (forward example_layer (\<lambda>k. True) (XTensor example_x) example_edges None (PyBool True) True)"
proof -
  note c = alpha_cache_cleared[where self = example_layer and keep = "\<lambda>k. True"
      and x = "XTensor example_x" and edge_index = example_edges and sizes = None
      and raw = "PyBool True" and sl = True and c = "Some example_x"
      and x_j = "\<lparr>shape = [3, 1, 1], data = [0, 0, 0]\<rparr>"
      and alpha_j = "\<lparr>shape = [3, 1], data = [0, 0, 0]\<rparr>"
      and alpha_i = "Some \<lparr>shape = [3, 1], data = [0, 0, 0]\<rparr>"
      and index = "[1, 0, 1]" and ptr = None and size_i = 2
      and glorot = zero_init and in_ch = "Inl 1" and out_ch = 1 and hds = 1 and cat = True
      and slope = "0.2" and p = 0 and with_bias = True]
  have d: "0 \<le> dropout example_layer \<and> dropout example_layer \<le> 1"
    by (simp add: GATConv_init_def)
  from c have 1: "alpha_cache example_layer = None" by blast
  from c example_message
  have 2: "alpha_cache (example_layer\<lparr>alpha_cache := Some \<lparr>shape = [3, 1], data = [1 / 2, 1, 1 / 2]\<rparr>\<rparr>) \<noteq> None"
    by blast
  from c 1 d
  have 3: "alpha_cache (snd (forward example_layer (\<lambda>k. True) (XTensor example_x) example_edges None
                          (PyBool True) True)) = None"
    by blast
  from c have 4: "fst (forward (example_layer\<lparr>alpha_cache := Some example_x\<rparr>) (\<lambda>k. True) (XTensor example_x)
            example_edges None (PyBool True) True)
       = fst (forward example_layer (\<lambda>k. True) (XTensor example_x) example_edges None (PyBool True) True)"
    by blast
  from 1 2 3 4 d show ?thesis by blast
qed

text \<open>
  Claim C5 as stated fails: for a layer built with the dropout probability 2 the
  dropout raises after \<^verbatim>\<open>message\<close> has stored the coefficients, and \<^verbatim>\<open>forward\<close> raises
  with the cache filled, although it was empty before the call.
\<close>

theorem cache_left_filled_on_dropout_error:
  "alpha_cache (GATConv_init zero_init (Inl 1) 1 1 True 0.2 2 True) = None
   \<and> fst (forward (GATConv_init zero_init (Inl 1) 1 1 True 0.2 2 True) (\<lambda>k. True) (XTensor example_x)
            example_edges None PyNone True) = Inl ValueError
   \<and> alpha_cache (snd (forward (GATConv_init zero_init (Inl 1) 1 1 True 0.2 2 True) (\<lambda>k. True)
                          (XTensor example_x) example_edges None PyNone True))
       = Some \<lparr>shape = [3, 1], data = [1 / 2, 1, 1 / 2]\<rparr>"
  by (simp only: example_bad_dropout fst_conv snd_conv) (simp add: GATConv_init_def)

subsection \<open>Determinism at inference\<close>

text \<open>
  Claim C8. In inference mode (\<^verbatim>\<open>training = False\<close>) the result of \<^verbatim>\<open>forward\<close> is
  the same for any two random draws \<open>keep\<close> and \<open>keep'\<close> of the dropout and any previous
  content of the cache: it is a function of the inputs and the parameters alone.
\<close>

theorem inference_deterministic:
  assumes "training self = False"
  shows "fst (forward (self\<lparr>alpha_cache := c\<rparr>) keep' x edge_index sizes raw sl)
           = fst (forward self keep x edge_index sizes raw sl)"
  using assms
  by (simp add: forward_eq dropout_fn_def split: sum.splits prod.splits)

theorem inference_deterministic_witness:
  "training (example_layer\<lparr>training := False\<rparr>) = False
   \<and> fst (forward (example_layer\<lparr>training := False, alpha_cache := Some example_x\<rparr>) (\<lambda>k. False)
            (XTensor example_x) example_edges None (PyBool True) True)
       = fst (forward (example_layer\<lparr>training := False\<rparr>) (\<lambda>k. True)
            (XTensor example_x) example_edges None (PyBool True) True)"
proof -
  have t: "training (example_layer\<lparr>training := False\<rparr>) = False" by simp
  from inference_deterministic[OF t, of "Some example_x" "\<lambda>k. False" "XTensor example_x" example_edges
      None "PyBool True" True "\<lambda>k. True"] t
  show ?thesis by blast
qed

subsection \<open>Export of the attention weights\<close>

text \<open>
  Claim C9. A call with \<^verbatim>\<open>return_attention_weights=False\<close> behaves exactly as one with
  \<^verbatim>\<open>True\<close>: whenever the plain call returns \<open>(out, edges)\<close>, the call with \<^verbatim>\<open>False\<close>
  returns \<open>(out, (edges, alpha))\<close>, and it never returns the bare edge list. Only a
  value that is not a \<^verbatim>\<open>bool\<close>, such as \<^verbatim>\<open>None\<close> or an integer, suppresses the export.
\<close>

theorem false_flag_exports_attention:
  "forward self keep x edge_index sizes (PyBool False) sl
     = forward self keep x edge_index sizes (PyBool True) sl
   \<and> (\<forall>out r. fst (forward self keep x edge_index sizes PyNone sl) = Inr (out, r)
        \<longrightarrow> r = EdgesOnly (edges_of r)
          \<and> (\<exists>alpha. fst (forward self keep x edge_index sizes (PyBool False) sl)
                        = Inr (out, EdgesAlpha (edges_of r) alpha)))
   \<and> (\<forall>out r. fst (forward self keep x edge_index sizes (PyBool False) sl) = Inr (out, r)
        \<longrightarrow> (\<exists>es alpha. r = EdgesAlpha es alpha))
   \<and> forward self keep x edge_index sizes (PyInt n) sl
       = forward self keep x edge_index sizes PyNone sl"
  by (auto simp: forward_eq split: sum.splits prod.splits)

theorem false_flag_exports_attention_witness:
  "forward example_layer (\<lambda>k. True) (XTensor example_x) example_edges None (PyBool False) True
     = (Inr (\<lparr>shape = [2, 1], data = [0, 0]\<rparr>,
             EdgesAlpha [(0, 1), (0, 0), (1, 1)] \<lparr>shape = [3, 1], data = [1 / 2, 1, 1 / 2]\<rparr>),
        example_layer)"
proof -
  from false_flag_exports_attention[of example_layer "\<lambda>k. True" "XTensor example_x" example_edges None True]
  have "forward example_layer (\<lambda>k. True) (XTensor example_x) example_edges None (PyBool False) True
     = forward example_layer (\<lambda>k. True) (XTensor example_x) example_edges None (PyBool True) True"
    by blast
  then show ?thesis by (simp only: example_forward)
qed

subsection \<open>The rank check\<close>

lemma bind_err_Inl:
  "bind_err m f = Inl e \<longleftrightarrow> m = Inl e \<or> (\<exists>v. m = Inr v \<and> f v = Inl e)"
  by (cases m) simp_all

lemma Linear_Inl: "Linear w x = Inl e \<Longrightarrow> e = RuntimeError"
  by (auto simp: Linear_def split: list.splits if_splits)

lemma view3_Inl: "view3 x H C = Inl e \<Longrightarrow> e = RuntimeError"
  by (auto simp: view3_def split: if_splits)

lemma att_sum_Inl: "att_sum x att = Inl e \<Longrightarrow> e = RuntimeError"
  by (auto simp: att_sum_def split: list.splits if_splits)

lemma forward_project_Inl:
  assumes "forward_project self x = Inl e"
  shows "e = RuntimeError \<or>
         e = AssertionError static_msg \<and> tdim (case x of XTensor t \<Rightarrow> t | XPair x0 x1 \<Rightarrow> x0) \<noteq> 2"
proof (cases x)
  case (XTensor t)
  with assms show ?thesis
    by (auto simp: forward_project_def bind_err_Inl split: if_splits
        dest: Linear_Inl view3_Inl att_sum_Inl)
next
  case (XPair x0 x1)
  with assms show ?thesis
    by (cases x1)
      (auto simp: forward_project_def bind_err_Inl split: if_splits
        dest: Linear_Inl view3_Inl att_sum_Inl)
qed

lemma set_size_Inl: "set_size s t = Inl e \<Longrightarrow> e = ValueError"
  by (auto simp: set_size_def split: option.splits if_splits)

lemma index_select_Inl: "index_select t idx = Inl e \<Longrightarrow> e = IndexError"
  by (auto simp: index_select_def split: list.splits if_splits)

lemma map_sum_id_Inl: "map_sum id f m = Inl e \<longleftrightarrow> m = Inl e"
  by (cases m) simp_all

lemma size_items_Inl: "size_items s = Inl e \<Longrightarrow> e = IndexError"
  by (auto simp: size_items_def split: if_splits)

lemma check_input_Inl: "check_input sizes = Inl e \<Longrightarrow> e = IndexError"
  by (auto simp: check_input_def map_sum_id_Inl split: option.splits dest: size_items_Inl)

lemma buffer_size_Inl: "buffer_size v = Inl e \<Longrightarrow> e = RuntimeError"
  by (auto simp: buffer_size_def split: if_splits)

lemma collect_Inl:
  "collect es x alpha sizes = Inl e \<Longrightarrow> e = ValueError \<or> e = IndexError \<or> e = RuntimeError"
  by (auto simp: collect_def bind_err_Inl map_sum_id_Inl split: option.splits
      dest: set_size_Inl index_select_Inl check_input_Inl buffer_size_Inl)

lemma forward_self_loops_Inl: "forward_self_loops sl es x_l x_r sizes = Inl e \<Longrightarrow> e = IndexError"
  by (auto simp: forward_self_loops_def num_nodes_def bind_err_Inl map_sum_id_Inl Let_def
      split: if_splits option.splits dest: size_items_Inl)

lemma dropout_fn_Inl: "dropout_fn keep t p tr = Inl e \<Longrightarrow> e = ValueError"
  by (auto simp: dropout_fn_def split: if_splits)

lemma softmax_Inl: "softmax src idx ptr n = Inl e \<Longrightarrow> e = RuntimeError"
  by (auto simp: softmax_def split: if_splits)

lemma view2_Inl: "view2 x K = Inl e \<Longrightarrow> e = RuntimeError"
  by (auto simp: view2_def split: if_splits)

lemma mean1_Inl: "mean1 x = Inl e \<Longrightarrow> e = IndexError"
  by (auto simp: mean1_def split: list.splits)

lemma add_bias_Inl: "add_bias out b = Inl e \<Longrightarrow> e = RuntimeError"
  by (auto simp: add_bias_def split: list.splits if_splits)

lemma forward_combine_Inl: "forward_combine self t = Inl e \<Longrightarrow> e = RuntimeError \<or> e = IndexError"
  by (auto simp: forward_combine_def bind_err_Inl split: if_splits option.splits
      dest: view2_Inl mean1_Inl add_bias_Inl)

lemma forward_Inl:
  assumes "fst (forward self keep x e sizes raw sl) = Inl err"
  shows "err \<in> {RuntimeError, ValueError, IndexError} \<or>
         err = AssertionError static_msg \<and> tdim (case x of XTensor t \<Rightarrow> t | XPair x0 x1 \<Rightarrow> x0) \<noteq> 2"
  using assms
  by (auto simp: forward_eq split: sum.splits prod.splits
      dest: forward_project_Inl collect_Inl softmax_Inl forward_combine_Inl forward_self_loops_Inl
        dropout_fn_Inl)

lemma forward_project_rank:
  "tdim (case x of XTensor t \<Rightarrow> t | XPair x0 x1 \<Rightarrow> x0) \<noteq> 2
     \<Longrightarrow> forward_project self x = Inl (AssertionError static_msg)"
  by (cases x) (simp_all add: forward_project_def)

lemma pair_example:
  "forward (GATConv_init zero_init (Inr (1, 1)) 1 1 True 0.2 0 True) (\<lambda>k. True)
     (XPair example_x (Some \<lparr>shape = [1, 2, 1], data = [1, 2]\<rparr>)) example_edges None PyNone True
   = (Inr (\<lparr>shape = [2, 1], data = [0, 0]\<rparr>, EdgesOnly [(0, 1), (0, 0), (1, 1)]),
      GATConv_init zero_init (Inr (1, 1)) 1 1 True 0.2 0 True)"
  by (simp add: eval_defs)

text \<open>
  Claim C6, as amended. If the feature tensor, or the source tensor of a pair of
  feature tensors, has a rank other than 2, then \<^verbatim>\<open>forward\<close> raises the assertion
  error of the rank check and leaves the layer untouched, whatever the parameters,
  the edges and the other arguments are (so before any projection or message
  passing); if that rank is 2, \<^verbatim>\<open>forward\<close> never raises this error. The rank of the
  target tensor of a pair is not checked.
\<close>

theorem rank_check_first:
  "(tdim (case x of XTensor t \<Rightarrow> t | XPair x0 x1 \<Rightarrow> x0) \<noteq> 2
      \<longrightarrow> forward self keep x edge_index sizes raw sl = (Inl (AssertionError static_msg), self))
   \<and> (tdim (case x of XTensor t \<Rightarrow> t | XPair x0 x1 \<Rightarrow> x0) = 2
      \<longrightarrow> fst (forward self keep x edge_index sizes raw sl) \<noteq> Inl (AssertionError static_msg))"
proof (intro conjI impI)
  assume "tdim (case x of XTensor t \<Rightarrow> t | XPair x0 x1 \<Rightarrow> x0) \<noteq> 2"
  then show "forward self keep x edge_index sizes raw sl = (Inl (AssertionError static_msg), self)"
    by (simp add: forward_eq forward_project_rank)
next
  assume r: "tdim (case x of XTensor t \<Rightarrow> t | XPair x0 x1 \<Rightarrow> x0) = 2"
  show "fst (forward self keep x edge_index sizes raw sl) \<noteq> Inl (AssertionError static_msg)"
  proof
    assume "fst (forward self keep x edge_index sizes raw sl) = Inl (AssertionError static_msg)"
    from forward_Inl[OF this] r show False by simp
  qed
qed

theorem rank_check_first_witness:
  "tdim \<lparr>shape = [1, 2, 1], data = [1, 2]\<rparr> \<noteq> 2
   \<and> forward example_layer (\<lambda>k. True) (XTensor \<lparr>shape = [1, 2, 1], data = [1, 2]\<rparr>) example_edges None
         PyNone True = (Inl (AssertionError static_msg), example_layer)
   \<and> tdim example_x = 2
   \<and> fst (forward example_layer (\<lambda>k. True) (XTensor example_x) example_edges None PyNone True)
        \<noteq> Inl (AssertionError static_msg)"
proof -
  have a: "tdim (case XTensor \<lparr>shape = [1, 2, 1], data = [1, 2]\<rparr> of XTensor t \<Rightarrow> t | XPair x0 x1 \<Rightarrow> x0) \<noteq> 2"
    by (simp add: tdim_def)
  have b: "tdim (case XTensor example_x of XTensor t \<Rightarrow> t | XPair x0 x1 \<Rightarrow> x0) = 2"
    by (simp add: tdim_def)
  from rank_check_first[of "XTensor \<lparr>shape = [1, 2, 1], data = [1, 2]\<rparr>" example_layer "\<lambda>k. True"
      example_edges None PyNone True] a
  have 1: "forward example_layer (\<lambda>k. True) (XTensor \<lparr>shape = [1, 2, 1], data = [1, 2]\<rparr>) example_edges None
         PyNone True = (Inl (AssertionError static_msg), example_layer)"
    by blast
  from rank_check_first[of "XTensor example_x" example_layer "\<lambda>k. True" example_edges None PyNone True] b
  have 2: "fst (forward example_layer (\<lambda>k. True) (XTensor example_x) example_edges None PyNone True)
        \<noteq> Inl (AssertionError static_msg)"
    by blast
  from a b 1 2 show ?thesis by simp
qed

text \<open>
  Claim C6 as stated fails: a pair whose target tensor has rank 3 is accepted, and
  the call returns.
\<close>

theorem target_rank_unchecked:
  "tdim \<lparr>shape = [1, 2, 1], data = [1, 2]\<rparr> \<noteq> 2
   \<and> fst (forward (GATConv_init zero_init (Inr (1, 1)) 1 1 True 0.2 0 True) (\<lambda>k. True)
            (XPair example_x (Some \<lparr>shape = [1, 2, 1], data = [1, 2]\<rparr>)) example_edges None PyNone True)
       = Inr (\<lparr>shape = [2, 1], data = [0, 0]\<rparr>, EdgesOnly [(0, 1), (0, 0), (1, 1)])"
  by (simp only: pair_example fst_conv) (simp add: tdim_def)

subsection \<open>The factory\<close>

text \<open>
  Claim C7. \<^verbatim>\<open>create_gat\<close> returns a \<^verbatim>\<open>StandGAT1\<close> for depth 1, a \<^verbatim>\<open>StandGAT2\<close> for depth
  2, a \<^verbatim>\<open>StandGATEncoder\<close> for depth 3 and a \<^verbatim>\<open>StandGATClssifier\<close> for depth 4, each built
  from the arguments as the source builds it; for every other depth no model is built
  and nothing is returned: the unbound local raises.
\<close>

theorem create_gat_by_depth:
  "create_gat glorot nfeat nhid nclass p 1 nembed = Inr (StandGAT1_init glorot nfeat nhid nclass p 1 True)
   \<and> class_name (StandGAT1_init glorot nfeat nhid nclass p 1 True) = ''StandGAT1''
   \<and> create_gat glorot nfeat nhid nclass p 2 nembed = Inr (StandGAT2_init glorot nfeat nhid nclass p 2)
   \<and> class_name (StandGAT2_init glorot nfeat nhid nclass p 2) = ''StandGAT2''
   \<and> create_gat glorot nfeat nhid nclass p 3 nembed = Inr (StandGATEncoder_init glorot nfeat nhid nembed p True)
   \<and> class_name (StandGATEncoder_init glorot nfeat nhid nembed p True) = ''StandGATEncoder''
   \<and> create_gat glorot nfeat nhid nclass p 4 nembed = Inr (StandGATClssifier_init glorot nhid nembed nclass p 2)
   \<and> class_name (StandGATClssifier_init glorot nhid nembed nclass p 2) = ''StandGATClssifier''
   \<and> (nlayer \<notin> {1, 2, 3, 4} \<longrightarrow> create_gat glorot nfeat nhid nclass p nlayer nembed = Inl UnboundLocalError)"
  by (simp add: create_gat_def StandGAT1_init_def StandGAT2_init_def StandGATEncoder_init_def
      StandGATClssifier_init_def Let_def)

theorem create_gat_by_depth_witness:
  "(5 :: int) \<notin> {1, 2, 3, 4} \<and> create_gat zero_init 3 8 2 0.5 5 64 = Inl UnboundLocalError
   \<and> create_gat zero_init 3 8 2 0.5 0 64 = Inl UnboundLocalError"
  using create_gat_by_depth[of zero_init 3 8 2 "0.5" 64 5]
        create_gat_by_depth[of zero_init 3 8 2 "0.5" 64 0]
  by simp

subsection \<open>Parameter groups\<close>

lemma parameters_prefix: "s \<in> set (parameters prefix c) \<Longrightarrow> take (length prefix) s = prefix"
  by (auto simp: parameters_def split: option.splits sum.splits)

lemma list_parameters_prefix:
  "s \<in> set (list_parameters prefix i cs) \<Longrightarrow> take (length prefix) s = prefix"
proof (induction cs arbitrary: i)
  case Nil
  then show ?case by simp
next
  case (Cons c cs)
  from Cons.prems have "s \<in> set (parameters (prefix @ ''.'' @ str_nat i) c)
      \<or> s \<in> set (list_parameters prefix (Suc i) cs)"
    by simp
  then show ?case
  proof
    assume "s \<in> set (parameters (prefix @ ''.'' @ str_nat i) c)"
    from parameters_prefix[OF this]
    have "take (length prefix) (take (length (prefix @ ''.'' @ str_nat i)) s)
            = take (length prefix) (prefix @ ''.'' @ str_nat i)"
      by simp
    then show ?thesis by (simp add: min_def)
  next
    assume "s \<in> set (list_parameters prefix (Suc i) cs)"
    then show ?thesis by (rule Cons.IH)
  qed
qed

lemma conv2_not_conv1:
  "s \<in> set (parameters ''conv1'' c1) \<Longrightarrow> s \<in> set (parameters ''conv2'' c2) \<Longrightarrow> False"
  using parameters_prefix[of s "''conv1''" c1] parameters_prefix[of s "''conv2''" c2] by simp

lemma conv2_not_convx:
  "s \<in> set (list_parameters ''convx'' i cs) \<Longrightarrow> s \<in> set (parameters ''conv2'' c2) \<Longrightarrow> False"
  using list_parameters_prefix[of s "''convx''" i cs] parameters_prefix[of s "''conv2''" c2] by simp

lemma groups_StandGAT1:
  "reg_params (StandGAT1 c1 sl [] (parameters ''conv1'' c1)) = Inr []
   \<and> non_reg_params (StandGAT1 c1 sl [] (parameters ''conv1'' c1)) = Inr (parameters ''conv1'' c1)
   \<and> set [] \<union> set (parameters ''conv1'' c1)
       = set (model_parameters (StandGAT1 c1 sl [] (parameters ''conv1'' c1)))
   \<and> set [] \<inter> set (parameters ''conv1'' c1) = {}"
  by simp

lemma groups_StandGAT2:
  "reg_params (StandGAT2 c1 c2 d sl (parameters ''conv1'' c1) (parameters ''conv2'' c2))
     = Inr (parameters ''conv1'' c1)
   \<and> non_reg_params (StandGAT2 c1 c2 d sl (parameters ''conv1'' c1) (parameters ''conv2'' c2))
     = Inr (parameters ''conv2'' c2)
   \<and> set (parameters ''conv1'' c1) \<union> set (parameters ''conv2'' c2)
       = set (model_parameters (StandGAT2 c1 c2 d sl (parameters ''conv1'' c1) (parameters ''conv2'' c2)))
   \<and> set (parameters ''conv1'' c1) \<inter> set (parameters ''conv2'' c2) = {}"
  using conv2_not_conv1[of _ c1 c2] by auto

lemma groups_StandGATX:
  "reg_params (StandGATX c1 c2 cx d sl (parameters ''conv1'' c1 @ list_parameters ''convx'' 0 cx)
        (parameters ''conv2'' c2) tr)
     = Inr (parameters ''conv1'' c1 @ list_parameters ''convx'' 0 cx)
   \<and> non_reg_params (StandGATX c1 c2 cx d sl (parameters ''conv1'' c1 @ list_parameters ''convx'' 0 cx)
        (parameters ''conv2'' c2) tr)
     = Inr (parameters ''conv2'' c2)
   \<and> set (parameters ''conv1'' c1 @ list_parameters ''convx'' 0 cx) \<union> set (parameters ''conv2'' c2)
       = set (model_parameters (StandGATX c1 c2 cx d sl
                (parameters ''conv1'' c1 @ list_parameters ''convx'' 0 cx) (parameters ''conv2'' c2) tr))
   \<and> set (parameters ''conv1'' c1 @ list_parameters ''convx'' 0 cx) \<inter> set (parameters ''conv2'' c2) = {}"
  using conv2_not_conv1[of _ c1 c2] conv2_not_convx[of _ 0 cx c2] by auto

text \<open>
  Claim C4, as amended. The 1-layer, 2-layer and N-layer models expose the attributes
  \<^verbatim>\<open>reg_params\<close> and \<^verbatim>\<open>non_reg_params\<close>: the second holds the parameters of the layer
  applied last (\<^verbatim>\<open>conv1\<close> of the 1-layer model, \<^verbatim>\<open>conv2\<close> otherwise), the first those of
  all other layers, and the two groups partition the parameters of the model. The
  encoder and the classifier define neither attribute.
\<close>

theorem parameter_groups:
  assumes "m = StandGAT1_init glorot nfeat nhid nclass p nlayer sl
         \<or> m = StandGAT2_init glorot nfeat nhid nclass p nlayer
         \<or> m = StandGATX_init glorot nfeat nhid nclass p nlayer"
  shows "\<exists>reg non_reg.
           reg_params m = Inr reg \<and> non_reg_params m = Inr non_reg
         \<and> non_reg = (case m of
                         StandGAT1 c1 s r n \<Rightarrow> parameters ''conv1'' c1
                       | StandGAT2 c1 c2 d s r n \<Rightarrow> parameters ''conv2'' c2
                       | StandGATX c1 c2 cx d s r n t \<Rightarrow> parameters ''conv2'' c2
                       | _ \<Rightarrow> [])
         \<and> set reg \<union> set non_reg = set (model_parameters m)
         \<and> set reg \<inter> set non_reg = {}"
  using assms
proof (elim disjE)
  assume m: "m = StandGAT1_init glorot nfeat nhid nclass p nlayer sl"
  show ?thesis
    unfolding m StandGAT1_init_def Let_def
    using groups_StandGAT1 by (intro exI conjI) (simp_all only: model.case, simp_all)
next
  assume m: "m = StandGAT2_init glorot nfeat nhid nclass p nlayer"
  show ?thesis
    unfolding m StandGAT2_init_def Let_def
    using groups_StandGAT2 by (intro exI conjI) (simp_all only: model.case, blast+)
next
  assume m: "m = StandGATX_init glorot nfeat nhid nclass p nlayer"
  show ?thesis
    unfolding m StandGATX_init_def Let_def
    using groups_StandGATX by (intro exI conjI) (simp_all only: model.case, blast+)
qed

theorem parameter_groups_witness:
  "reg_params (StandGAT2_init zero_init 3 8 2 0.5 2)
     = Inr [''conv1.att_l'', ''conv1.att_r'', ''conv1.bias'', ''conv1.temp_weight.weight'']
   \<and> non_reg_params (StandGAT2_init zero_init 3 8 2 0.5 2)
     = Inr [''conv2.att_l'', ''conv2.att_r'', ''conv2.bias'', ''conv2.temp_weight.weight'']"
proof -
  from parameter_groups[of "StandGAT2_init zero_init 3 8 2 0.5 2" zero_init 3 8 2 "0.5" 2 True]
  obtain reg non_reg where
    "reg_params (StandGAT2_init zero_init 3 8 2 0.5 2) = Inr reg"
    "non_reg_params (StandGAT2_init zero_init 3 8 2 0.5 2) = Inr non_reg"
    by blast
  then show ?thesis
    by (simp add: StandGAT2_init_def GATConv_init_def parameters_def Let_def)
qed

text \<open>
  Claim C4 as stated fails for the encoder and the classifier: reading either group
  from them raises an attribute error.
\<close>

theorem encoder_has_no_parameter_groups:
  "reg_params (StandGATEncoder_init zero_init 3 8 64 0.5 True) = Inl (AttributeError ''reg_params'')
   \<and> non_reg_params (StandGATClssifier_init zero_init 8 64 2 0.5 2) = Inl (AttributeError ''non_reg_params'')"
  by (simp add: StandGATEncoder_init_def StandGATClssifier_init_def Let_def)

subsection \<open>The third argument of the final layer\<close>

lemma forward_project_XTensor:
  "forward_project self (XTensor t) = Inr (x_l, x_r, alpha_l, alpha_r) \<Longrightarrow> x_r = Some x_l"
  by (auto simp: forward_project_def bind_err_Inr split: if_splits)

lemma size_matches:
  assumes "2 \<le> length w" "w ! 0 = real (size0 x_l)" "w ! 1 = real (size0 x_l)"
  shows "forward_self_loops sl es x_l (Some x_l) (Some w) = forward_self_loops sl es x_l (Some x_l) None"
    and "collect es' (x_l, Some x_l) alpha (Some w) = collect es' (x_l, Some x_l) alpha None"
  using assms
  by (simp_all add: forward_self_loops_def num_nodes_def size_items_def collect_def check_input_def
      set_size_def Let_def)

lemma forward_size_matches:
  assumes "forward_project self (XTensor t) = Inr (x_l, x_r, alpha_l, alpha_r)"
      and "2 \<le> length w" "w ! 0 = real (size0 x_l)" "w ! 1 = real (size0 x_l)"
  shows "forward self keep (XTensor t) es (Some w) raw sl = forward self keep (XTensor t) es None raw sl"
proof -
  from forward_project_XTensor[OF assms(1)] have x_r: "x_r = Some x_l" .
  show ?thesis
    unfolding forward_eq assms(1)[unfolded x_r]
    by (simp add: size_matches[OF assms(2-4)] cong: sum.case_cong)
qed

lemma forward_size_mismatch:
  assumes "forward_project self (XTensor t) = Inr (x_l, x_r, alpha_l, alpha_r)"
      and "length w < 2 \<or> w ! 0 \<noteq> real (size0 x_l) \<or> w ! 1 \<noteq> real (size0 x_l)"
  shows "\<exists>e. forward self keep (XTensor t) es (Some w) raw sl = (Inl e, self)"
proof -
  from forward_project_XTensor[OF assms(1)] have x_r: "x_r = Some x_l" .
  show ?thesis
  proof (cases "length w < 2")
    case True
    then have "forward_self_loops True es x_l (Some x_l) (Some w) = Inl IndexError"
      "check_input (Some w) = Inl IndexError"
      by (simp_all add: forward_self_loops_def num_nodes_def size_items_def check_input_def Let_def)
    then show ?thesis
      unfolding forward_eq assms(1)[unfolded x_r]
      by (cases sl) (simp_all add: forward_self_loops_def collect_def)
  next
    case False
    with assms(2) have "w ! 0 \<noteq> real (size0 x_l) \<or> w ! 1 \<noteq> real (size0 x_l)" by simp
    with False have "collect es' (x_l, Some x_l) alpha (Some w) = Inl ValueError" for es' alpha
      by (auto simp: collect_def check_input_def size_items_def set_size_def)
    then show ?thesis
      unfolding forward_eq assms(1)[unfolded x_r]
      by (simp split: sum.splits)
  qed
qed

lemma example_first:
  "forward example_layer (\<lambda>k. True) (XTensor example_x) example_edges None PyNone True
     = (Inr (\<lparr>shape = [2, 1], data = [0, 0]\<rparr>, EdgesOnly [(0, 1), (0, 0), (1, 1)]), example_layer)"
  by (simp add: eval_defs)

lemma example_hidden_project:
  "forward_project example_layer (XTensor \<lparr>shape = [2, 1], data = [0, 0]\<rparr>)
     = Inr (\<lparr>shape = [2, 1, 1], data = [0, 0]\<rparr>, Some \<lparr>shape = [2, 1, 1], data = [0, 0]\<rparr>,
            \<lparr>shape = [2, 1], data = [0, 0]\<rparr>, Some \<lparr>shape = [2, 1], data = [0, 0]\<rparr>)"
  by (simp add: eval_defs)

lemma example_final:
  "forward example_layer (\<lambda>k. True) (XTensor \<lparr>shape = [2, 1], data = [0, 0]\<rparr>)
       [(0, 1), (0, 0), (1, 1)] None PyNone True
     = (Inr (\<lparr>shape = [2, 1], data = [0, 0]\<rparr>, EdgesOnly [(0, 1), (0, 0), (1, 1)]), example_layer)"
  by (simp add: eval_defs)

lemma example_final_weights:
  "forward example_layer (\<lambda>k. True) (XTensor \<lparr>shape = [2, 1], data = [0, 0]\<rparr>)
       [(0, 1), (0, 0), (1, 1)] (Some [1 / 2, 1 / 4]) PyNone True
     = (Inl ValueError, example_layer)"
  by (simp add: eval_defs)

text \<open>
  Claim C10. In \<^verbatim>\<open>StandGATX.forward\<close> the argument \<^verbatim>\<open>edge_weight\<close> reaches the final layer
  as its \<^verbatim>\<open>size\<close>. Once the first layer, the middle layers and the last feature
  dropout have run, the model returns or raises what \<^verbatim>\<open>conv2.forward\<close> returns or raises
  for the hidden features with \<^verbatim>\<open>size = edge_weight\<close>. For an \<^verbatim>\<open>edge_weight\<close> \<open>w\<close> with
  at least two entries the self-loop adjustment of that call uses the node count
  \<open>min (w[0]) (w[1])\<close>. An \<open>w\<close> whose entries 0 and 1 are not both the number of nodes,
  as for a vector of edge weights, makes the call raise; an \<open>w\<close> whose entries 0 and 1
  are the number of nodes gives the result of \<^verbatim>\<open>edge_weight = None\<close>, whatever its other
  entries are: no entry is used as a weight.
\<close>

theorem edge_weight_is_size:
  assumes c1: "forward conv1 (keep 0) x adj None PyNone True = (Inr (x1, EdgesOnly e1), conv1')"
      and cx: "convx_loop convx p tr True keep 1 (relu x1) e1 = (Inr (x2, e2), convx')"
      and dr: "dropout_fn (keep (1 + 2 * length convx')) x2 p tr = Inr xd"
      and pr: "forward_project conv2 (XTensor xd) = Inr (x_l, x_r, alpha_l, alpha_r)"
  shows "StandGATX_forward (StandGATX conv1 conv2 convx p True reg non_reg tr) keep x adj edge_weight
           = (case forward conv2 (keep (2 + 2 * length convx')) (XTensor xd) e2 edge_weight PyNone True of
                (Inl e, conv2') \<Rightarrow> (Inl e, StandGATX conv1' conv2' convx' p True reg non_reg tr)
              | (Inr (out, r), conv2') \<Rightarrow> (Inr out, StandGATX conv1' conv2' convx' p True reg non_reg tr))
       \<and> (2 \<le> length w \<longrightarrow>
            forward_self_loops True e2 x_l x_r (Some w)
              = Inr (add_self_loops (remove_self_loops e2) (min (w ! 0) (w ! 1)))
          \<and> count_list (add_self_loops (remove_self_loops e2) (min (w ! 0) (w ! 1))) (i, i)
              = (if real i < min (w ! 0) (w ! 1) then 1 else 0))
       \<and> (length w < 2 \<or> w ! 0 \<noteq> real (size0 x_l) \<or> w ! 1 \<noteq> real (size0 x_l) \<longrightarrow>
            (\<exists>e. StandGATX_forward (StandGATX conv1 conv2 convx p True reg non_reg tr) keep x adj (Some w)
                   = (Inl e, StandGATX conv1' conv2 convx' p True reg non_reg tr)))
       \<and> (2 \<le> length w \<and> w ! 0 = real (size0 x_l) \<and> w ! 1 = real (size0 x_l) \<longrightarrow>
            StandGATX_forward (StandGATX conv1 conv2 convx p True reg non_reg tr) keep x adj (Some w)
              = StandGATX_forward (StandGATX conv1 conv2 convx p True reg non_reg tr) keep x adj None)"
proof (intro conjI impI)
  have run: "StandGATX_forward (StandGATX conv1 conv2 convx p True reg non_reg tr) keep x adj ew
           = (case forward conv2 (keep (2 + 2 * length convx')) (XTensor xd) e2 ew PyNone True of
                (Inl e, conv2') \<Rightarrow> (Inl e, StandGATX conv1' conv2' convx' p True reg non_reg tr)
              | (Inr (out, r), conv2') \<Rightarrow> (Inr out, StandGATX conv1' conv2' convx' p True reg non_reg tr))"
    for ew
    using c1 cx dr by (simp add: Let_def split: prod.splits sum.splits)
  show "StandGATX_forward (StandGATX conv1 conv2 convx p True reg non_reg tr) keep x adj edge_weight
           = (case forward conv2 (keep (2 + 2 * length convx')) (XTensor xd) e2 edge_weight PyNone True of
                (Inl e, conv2') \<Rightarrow> (Inl e, StandGATX conv1' conv2' convx' p True reg non_reg tr)
              | (Inr (out, r), conv2') \<Rightarrow> (Inr out, StandGATX conv1' conv2' convx' p True reg non_reg tr))"
    by (rule run)
  {
    assume w: "2 \<le> length w"
    then show "forward_self_loops True e2 x_l x_r (Some w)
              = Inr (add_self_loops (remove_self_loops e2) (min (w ! 0) (w ! 1)))"
      by (simp add: forward_self_loops_def num_nodes_def size_items_def Let_def)
    show "count_list (add_self_loops (remove_self_loops e2) (min (w ! 0) (w ! 1))) (i, i)
              = (if real i < min (w ! 0) (w ! 1) then 1 else 0)"
      unfolding add_self_loops_def
      by (simp add: count_remove_self_loops count_self_loops_upt less_nat_ceiling del: upt_Suc)
  }
  {
    assume "length w < 2 \<or> w ! 0 \<noteq> real (size0 x_l) \<or> w ! 1 \<noteq> real (size0 x_l)"
    from forward_size_mismatch[OF pr this] obtain e where
      "forward conv2 (keep (2 + 2 * length convx')) (XTensor xd) e2 (Some w) PyNone True = (Inl e, conv2)"
      by blast
    then show "\<exists>e. StandGATX_forward (StandGATX conv1 conv2 convx p True reg non_reg tr) keep x adj (Some w)
                   = (Inl e, StandGATX conv1' conv2 convx' p True reg non_reg tr)"
      by (simp only: run prod.case sum.case) blast
  }
  {
    assume "2 \<le> length w \<and> w ! 0 = real (size0 x_l) \<and> w ! 1 = real (size0 x_l)"
    then have "2 \<le> length w" "w ! 0 = real (size0 x_l)" "w ! 1 = real (size0 x_l)" by simp_all
    from forward_size_matches[OF pr this]
    show "StandGATX_forward (StandGATX conv1 conv2 convx p True reg non_reg tr) keep x adj (Some w)
              = StandGATX_forward (StandGATX conv1 conv2 convx p True reg non_reg tr) keep x adj None"
      by (simp only: run)
  }
qed

theorem edge_weight_is_size_witness:
  "StandGATX_forward (StandGATX example_layer example_layer [] 0 True [] [] False) (\<lambda>n k. True)
       (XTensor example_x) example_edges None
     = (Inr \<lparr>shape = [2, 1], data = [0, 0]\<rparr>, StandGATX example_layer example_layer [] 0 True [] [] False)
   \<and> StandGATX_forward (StandGATX example_layer example_layer [] 0 True [] [] False) (\<lambda>n k. True)
       (XTensor example_x) example_edges (Some [2, 2])
     = (Inr \<lparr>shape = [2, 1], data = [0, 0]\<rparr>, StandGATX example_layer example_layer [] 0 True [] [] False)
   \<and> StandGATX_forward (StandGATX example_layer example_layer [] 0 True [] [] False) (\<lambda>n k. True)
       (XTensor example_x) example_edges (Some [1 / 2, 1 / 4])
     = (Inl ValueError, StandGATX example_layer example_layer [] 0 True [] [] False)
   \<and> count_list (add_self_loops (remove_self_loops [(0, 1), (0, 0), (1, 1)]) (min ([2, 2] ! 0) ([2, 2] ! 1)))
       (1, 1) = 1"
proof -
  have c1: "forward example_layer ((\<lambda>n k. True) 0) (XTensor example_x) example_edges None PyNone True
     = (Inr (\<lparr>shape = [2, 1], data = [0, 0]\<rparr>, EdgesOnly [(0, 1), (0, 0), (1, 1)]), example_layer)"
    by (simp only: example_first)
  have cx: "convx_loop [] 0 False True (\<lambda>n k. True) 1 (relu \<lparr>shape = [2, 1], data = [0, 0]\<rparr>)
              [(0, 1), (0, 0), (1, 1)]
            = (Inr (\<lparr>shape = [2, 1], data = [0, 0]\<rparr>, [(0, 1), (0, 0), (1, 1)]), [])"
    by (simp add: relu_def)
  have dr: "dropout_fn ((\<lambda>n k. True) (1 + 2 * length ([] :: GATConv list)))
              \<lparr>shape = [2, 1], data = [0, 0]\<rparr> 0 False = Inr \<lparr>shape = [2, 1], data = [0, 0]\<rparr>"
    by (simp add: dropout_fn_def)
  note t = edge_weight_is_size[OF c1 cx dr example_hidden_project, of "[]" "[]"]
  have size0: "real (size0 \<lparr>shape = [2, 1, 1], data = [0, 0]\<rparr>) = 2"
    by (simp add: size0_def)
  from t[of None "[]" 0]
  have 1: "StandGATX_forward (StandGATX example_layer example_layer [] 0 True [] [] False) (\<lambda>n k. True)
       (XTensor example_x) example_edges None
     = (Inr \<lparr>shape = [2, 1], data = [0, 0]\<rparr>, StandGATX example_layer example_layer [] 0 True [] [] False)"
    by (simp only: example_final list.size prod.case sum.case mult_0_right add_0_right)
  from t[of None "[2, 2]" 1] size0
  have 2: "StandGATX_forward (StandGATX example_layer example_layer [] 0 True [] [] False) (\<lambda>n k. True)
       (XTensor example_x) example_edges (Some [2, 2])
     = StandGATX_forward (StandGATX example_layer example_layer [] 0 True [] [] False) (\<lambda>n k. True)
       (XTensor example_x) example_edges None"
    and 4: "count_list (add_self_loops (remove_self_loops [(0, 1), (0, 0), (1, 1)])
              (min ([2, 2] ! 0) ([2, 2] ! 1))) (1, 1) = 1"
    by simp_all
  from t[of "Some [1 / 2, 1 / 4]" "[]" 0]
  have 3: "StandGATX_forward (StandGATX example_layer example_layer [] 0 True [] [] False) (\<lambda>n k. True)
       (XTensor example_x) example_edges (Some [1 / 2, 1 / 4])
     = (Inl ValueError, StandGATX example_layer example_layer [] 0 True [] [] False)"
    by (simp only: example_final_weights list.size prod.case sum.case mult_0_right add_0_right)
  from 1 2 3 4 show ?thesis by simp
qed

end
